theory Spec2Isabelle
  imports Complex_Main "HOL-Library.Char_ord" "HOL-Library.List_Lexorder"
begin

section \<open>Values, errors and tables\<close>

text \<open>
  The scripts are Python programs over a pandas table \<open>df\<close> that is loaded before they
  start. A cell of a table or of a worksheet holds nothing, an integer, a float, the float
  NaN (a missing measure) or text. \<open>PInt\<close> is a Python \<open>int\<close>; \<open>PInt64\<close> is a
  \<open>numpy.int64\<close>, which is a number but not an instance of \<open>int\<close>. A float (Python's or
  numpy's, which is an instance of Python's) is modelled by the real number it denotes:
  rounding is not modelled. The exceptions that the scripts can raise are values.
\<close>

datatype error = KeyError | IndexError | ValueError | TypeError | AttributeError | NameError
  | FileNotFoundError | ZeroDivisionError

datatype pyval = PNone | PInt int | PInt64 int | PFloat real | PNaN | PStr string

text \<open>Python's truth value of a cell value (\<open>if cell.value\<close>): NaN is a non-zero float.\<close>

fun py_truthy :: "pyval \<Rightarrow> bool" where
  "py_truthy PNone = False"
| "py_truthy (PInt n) = (n \<noteq> 0)"
| "py_truthy (PInt64 n) = (n \<noteq> 0)"
| "py_truthy (PFloat x) = (x \<noteq> 0)"
| "py_truthy PNaN = True"
| "py_truthy (PStr s) = (s \<noteq> [])"

text \<open>\<open>pd.isna(value)\<close> and \<open>isinstance(value, (int, float))\<close> on a cell value.\<close>

fun isna :: "pyval \<Rightarrow> bool" where
  "isna PNone = True"
| "isna PNaN = True"
| "isna _ = False"

fun is_int_or_float :: "pyval \<Rightarrow> bool" where
  "is_int_or_float (PInt n) = True"
| "is_int_or_float (PFloat x) = True"
| "is_int_or_float PNaN = True"
| "is_int_or_float (PInt64 n) = False"
| "is_int_or_float _ = False"

definition is_text :: "pyval \<Rightarrow> bool" where
  "is_text v = (case v of PStr s \<Rightarrow> True | _ \<Rightarrow> False)"

section \<open>Colours: \<open>hex_to_rgb\<close> (pdf\_report\_example.py)\<close>

text \<open>
  \<open>hex_digit c\<close> is the value of a hexadecimal digit, \<open>py_int16 s\<close> is \<open>int(s, 16)\<close>
  on a slice of a colour string: the empty slice raises ValueError, a slice of hex digits
  is read most significant digit first. (The builtin also reads a sign and surrounding
  blanks; no slice of hex digits has them, and they are reported as ValueError here.)
\<close>

definition hex_digit :: "char \<Rightarrow> nat option" where
  "hex_digit c =
     (let n = (of_char c :: nat) in
      if 48 \<le> n \<and> n \<le> 57 then Some (n - 48)
      else if 97 \<le> n \<and> n \<le> 102 then Some (n - 87)
      else if 65 \<le> n \<and> n \<le> 70 then Some (n - 55)
      else None)"

fun hex_value :: "nat \<Rightarrow> string \<Rightarrow> nat option" where
  "hex_value acc [] = Some acc"
| "hex_value acc (c # cs) =
     (case hex_digit c of None \<Rightarrow> None | Some d \<Rightarrow> hex_value (16 * acc + d) cs)"

definition py_int16 :: "string \<Rightarrow> error + int" where
  "py_int16 s =
     (if s = [] then Inl ValueError
      else case hex_value 0 s of None \<Rightarrow> Inl ValueError | Some n \<Rightarrow> Inr (int n))"

text \<open>\<open>s.lstrip('#')\<close> drops every leading \<open>#\<close>; \<open>s[i:j]\<close> is clipped to the string.\<close>

definition lstrip_hash :: "string \<Rightarrow> string" where
  "lstrip_hash s = dropWhile (\<lambda>c. c = CHR ''#'') s"

definition slice :: "string \<Rightarrow> nat \<Rightarrow> nat \<Rightarrow> string" where
  "slice s i j = take (j - i) (drop i s)"

definition hex_to_rgb :: "string \<Rightarrow> error + real \<times> real \<times> real" where
  "hex_to_rgb hex_color =
     (let h = lstrip_hash hex_color in
      case py_int16 (slice h 0 2) of Inl e \<Rightarrow> Inl e | Inr r \<Rightarrow>
      (case py_int16 (slice h 2 4) of Inl e \<Rightarrow> Inl e | Inr g \<Rightarrow>
      (case py_int16 (slice h 4 6) of Inl e \<Rightarrow> Inl e | Inr b \<Rightarrow>
         Inr (real_of_int r / 255, real_of_int g / 255, real_of_int b / 255))))"

text \<open>The integer that a pair of hex digits denotes, as the specification words it.\<close>

definition pair_value :: "char \<Rightarrow> char \<Rightarrow> nat" where
  "pair_value c d = 16 * the (hex_digit c) + the (hex_digit d)"

section \<open>Worksheets and cell styles (openpyxl)\<close>

text \<open>
  A cell carries a value and the style attributes that the scripts assign: the colour of
  its solid fill, its font, its alignment, the colour of its thin border and its number
  format. A position swallowed by a merged range holds a \<open>MergedCell\<close>, whose value is
  always \<open>None\<close> and which has no \<open>column_letter\<close>.
\<close>

record font =
  font_bold :: bool
  font_italic :: bool
  font_color :: string
  font_size :: nat

record alignment =
  horizontal :: string
  vertical :: string
  wrap_text :: bool

record cell =
  cell_value :: pyval
  cell_fill :: "string option"
  cell_font :: "font option"
  cell_alignment :: "alignment option"
  cell_border :: "string option"
  cell_number_format :: string

datatype cellobj = Cell cell | MergedCell

definition empty_cell :: cell where
  "empty_cell = \<lparr>cell_value = PNone, cell_fill = None, cell_font = None,
     cell_alignment = None, cell_border = None, cell_number_format = ''General''\<rparr>"

fun obj_value :: "cellobj \<Rightarrow> pyval" where
  "obj_value (Cell c) = cell_value c"
| "obj_value MergedCell = PNone"

text \<open>
  A worksheet maps (row, column) to the cells created so far and records the width set
  for each column. \<open>column_dimensions\<close> is keyed by the column's letter, which is an
  injective renaming of the column index; the model keys widths by the index.
  \<open>last_row\<close> and \<open>last_column\<close> are the largest row and column of a cell (0 for a sheet
  without cells); openpyxl reports 1 as \<open>max_row\<close> and \<open>max_column\<close> of such a sheet.
\<close>

record worksheet =
  ws_cells :: "nat \<times> nat \<Rightarrow> cellobj option"
  last_row :: nat
  last_column :: nat
  column_width :: "nat \<Rightarrow> int option"

definition max_row :: "worksheet \<Rightarrow> nat" where
  "max_row ws = max 1 (last_row ws)"

definition max_column :: "worksheet \<Rightarrow> nat" where
  "max_column ws = max 1 (last_column ws)"

definition new_sheet :: worksheet where
  "new_sheet = \<lparr>ws_cells = (\<lambda>_. None), last_row = 0, last_column = 0,
     column_width = (\<lambda>_. None)\<rparr>"

text \<open>\<open>ws.cell(row, column)\<close> returns the cell at a position and creates it when absent.\<close>

definition get_cell :: "worksheet \<Rightarrow> nat \<Rightarrow> nat \<Rightarrow> cellobj" where
  "get_cell ws r c = (case ws_cells ws (r, c) of None \<Rightarrow> Cell empty_cell | Some x \<Rightarrow> x)"

definition touch :: "worksheet \<Rightarrow> nat \<Rightarrow> nat \<Rightarrow> worksheet" where
  "touch ws r c =
     ws\<lparr>ws_cells := (ws_cells ws)((r, c) \<mapsto> get_cell ws r c),
        last_row := max (last_row ws) r, last_column := max (last_column ws) c\<rparr>"

definition put_cell :: "worksheet \<Rightarrow> nat \<Rightarrow> nat \<Rightarrow> cell \<Rightarrow> worksheet" where
  "put_cell ws r c x =
     ws\<lparr>ws_cells := (ws_cells ws)((r, c) \<mapsto> Cell x),
        last_row := max (last_row ws) r, last_column := max (last_column ws) c\<rparr>"

section \<open>\<open>auto_fit_columns\<close>\<close>

text \<open>
  sales\_analysis\_excel\_report.py, lines 129-142. The loop visits every column index up to
  \<open>max_column\<close> and every row index up to \<open>max_row\<close>, keeps the longest \<open>str(cell.value)\<close>
  of the cells whose value is true, and sets the column's width to
  \<open>min(max(max_length + 2, min_width), max_width)\<close>. The test
  \<open>not isinstance(cell, type(None))\<close> is true of every cell. \<open>str\<close> is Python's
  rendering of a value and is a parameter; it raises on no cell value, so the bare
  \<open>except\<close> has nothing to catch.
\<close>

definition fit_cell :: "(pyval \<Rightarrow> string) \<Rightarrow> nat \<Rightarrow> nat \<Rightarrow> nat \<times> worksheet \<Rightarrow> nat \<times> worksheet" where
  "fit_cell str col_idx row_idx = (\<lambda>(max_length, ws).
     let ws' = touch ws row_idx col_idx;
         v = obj_value (get_cell ws' row_idx col_idx)
     in (if py_truthy v then max max_length (length (str v)) else max_length, ws'))"

definition adjusted_width :: "nat \<Rightarrow> int \<Rightarrow> int \<Rightarrow> int" where
  "adjusted_width max_length min_width max_width =
     min (max (int max_length + 2) min_width) max_width"

definition fit_column :: "(pyval \<Rightarrow> string) \<Rightarrow> int \<Rightarrow> int \<Rightarrow> nat \<Rightarrow> worksheet \<Rightarrow> worksheet" where
  "fit_column str min_width max_width col_idx ws =
     (case fold (fit_cell str col_idx) [1..<max_row ws + 1] (0, ws) of
        (max_length, ws') \<Rightarrow>
          ws'\<lparr>column_width := (column_width ws')
                 (col_idx \<mapsto> adjusted_width max_length min_width max_width)\<rparr>)"

definition auto_fit_columns :: "(pyval \<Rightarrow> string) \<Rightarrow> worksheet \<Rightarrow> int \<Rightarrow> int \<Rightarrow> worksheet" where
  "auto_fit_columns str ws min_width max_width =
     fold (fit_column str min_width max_width) [1..<max_column ws + 1] ws"

text \<open>
  styled\_excel\_analysis.py, lines 99-111. The loop runs over \<open>ws.columns\<close>: no column
  for a sheet without cells, otherwise the columns 1 to \<open>max_column\<close>, each with the rows
  1 to \<open>max_row\<close>. The width is stored under \<open>column_cells[0].column_letter\<close>; that
  attribute is read outside the \<open>try\<close>, and a MergedCell does not have it.
\<close>

definition longest :: "(pyval \<Rightarrow> string) \<Rightarrow> pyval list \<Rightarrow> nat" where
  "longest str vals =
     fold (\<lambda>v max_length. if py_truthy v then max max_length (length (str v)) else max_length)
       vals 0"

fun fit_columns_styled ::
  "(pyval \<Rightarrow> string) \<Rightarrow> int \<Rightarrow> int \<Rightarrow> nat list \<Rightarrow> nat list \<Rightarrow> worksheet \<Rightarrow> error + worksheet" where
  "fit_columns_styled str min_width max_width rows [] ws = Inr ws"
| "fit_columns_styled str min_width max_width rows (col_idx # cols) ws =
     (let ws1 = fold (\<lambda>r w. touch w r col_idx) rows ws;
          column_cells = map (\<lambda>r. get_cell ws1 r col_idx) rows
      in case hd column_cells of
           MergedCell \<Rightarrow> Inl AttributeError
         | Cell first \<Rightarrow>
             fit_columns_styled str min_width max_width rows cols
               (ws1\<lparr>column_width := (column_width ws1)
                  (col_idx \<mapsto> adjusted_width (longest str (map obj_value column_cells))
                                 min_width max_width)\<rparr>))"

definition auto_fit_columns_styled ::
  "(pyval \<Rightarrow> string) \<Rightarrow> worksheet \<Rightarrow> int \<Rightarrow> int \<Rightarrow> error + worksheet" where
  "auto_fit_columns_styled str ws min_width max_width =
     (if last_row ws = 0 then Inr ws
      else fit_columns_styled str min_width max_width
             [1..<max_row ws + 1] [1..<max_column ws + 1] ws)"

text \<open>A rendering of values for worked examples: text is itself, anything else is empty.\<close>

fun plain_str :: "pyval \<Rightarrow> string" where
  "plain_str (PStr s) = s"
| "plain_str _ = []"

definition title_sheet :: worksheet where
  "title_sheet = put_cell new_sheet 1 1 (empty_cell\<lparr>cell_value := PStr ''SALES ANALYSIS SUMMARY''\<rparr>)"

section \<open>Cell styling: \<open>style_cell\<close>\<close>

text \<open>
  sales\_analysis\_excel\_report.py (lines 37-91) and styled\_excel\_analysis.py (lines 26-81)
  define the same function over their own module-level style constants. The constants that
  \<open>style_cell\<close> reads form a theme; the function is modelled once, over a theme.
\<close>

record theme =
  title_fill :: string
  title_font :: font
  header_fill :: string
  header_font :: font
  header_alignment :: alignment
  data_fill :: string
  data_font :: font
  alt_fill :: string
  beige_border :: string

definition BEIGE :: string where "BEIGE = ''F5F5DC''"
definition LIGHT_MAROON :: string where "LIGHT_MAROON = ''A52A2A''"
definition DARK_BEIGE :: string where "DARK_BEIGE = ''D4C4A8''"

definition sales_theme :: theme where
  "sales_theme = \<lparr>
     title_fill = ''800000'',
     title_font = \<lparr>font_bold = True, font_italic = False, font_color = BEIGE, font_size = 18\<rparr>,
     header_fill = ''4A0000'',
     header_font = \<lparr>font_bold = True, font_italic = False, font_color = BEIGE, font_size = 12\<rparr>,
     header_alignment = \<lparr>horizontal = ''center'', vertical = ''center'', wrap_text = True\<rparr>,
     data_fill = ''800000'',
     data_font = \<lparr>font_bold = False, font_italic = False, font_color = BEIGE, font_size = 10\<rparr>,
     alt_fill = LIGHT_MAROON,
     beige_border = DARK_BEIGE\<rparr>"

definition styled_theme :: theme where
  "styled_theme = \<lparr>
     title_fill = ''800020'',
     title_font = \<lparr>font_bold = True, font_italic = False, font_color = BEIGE, font_size = 16\<rparr>,
     header_fill = ''800020'',
     header_font = \<lparr>font_bold = True, font_italic = False, font_color = BEIGE, font_size = 12\<rparr>,
     header_alignment = \<lparr>horizontal = ''center'', vertical = ''center'', wrap_text = True\<rparr>,
     data_fill = ''800020'',
     data_font = \<lparr>font_bold = False, font_italic = False, font_color = BEIGE, font_size = 10\<rparr>,
     alt_fill = LIGHT_MAROON,
     beige_border = DARK_BEIGE\<rparr>"

definition currency_format :: string where
  \<open>currency_format = ''_($* #,##0.00_);_($* (#,##0.00);_($* "-"??_);_(@_)''\<close>

definition number_format :: string where "number_format = ''#,##0''"

definition decimal_format :: string where "decimal_format = ''#,##0.00''"

text \<open>\<open>if fmt:\<close> holds for a format that is neither \<open>None\<close> nor the empty string.\<close>

definition style_cell :: "theme \<Rightarrow> cell \<Rightarrow> bool \<Rightarrow> bool \<Rightarrow> bool \<Rightarrow> string option \<Rightarrow> cell" where
  "style_cell th c is_header is_alt_row is_number fmt =
     (let c1 = (if is_header
                then c\<lparr>cell_fill := Some (header_fill th), cell_font := Some (header_font th),
                       cell_alignment := Some (header_alignment th)\<rparr>
                else c\<lparr>cell_fill := Some (if is_alt_row then alt_fill th else data_fill th),
                       cell_font := Some (data_font th),
                       cell_alignment := Some \<lparr>horizontal = (if is_number then ''right'' else ''left''),
                                                vertical = ''center'', wrap_text = False\<rparr>\<rparr>);
          c2 = c1\<lparr>cell_border := Some (beige_border th)\<rparr>
      in case fmt of
           None \<Rightarrow> c2
         | Some f \<Rightarrow> if f \<noteq> [] then c2\<lparr>cell_number_format := f\<rparr> else c2)"

section \<open>Tables and \<open>write_data_table\<close>\<close>

text \<open>
  A table has an ordered list of column names and an ordered list of rows; a row gives a
  value to each column name (the values at other names are not read). Column names are
  taken to be distinct, as pandas makes them when it reads a CSV file.
\<close>

record dataframe =
  df_columns :: "string list"
  df_rows :: "(string \<Rightarrow> pyval) list"

text \<open>
  \<open>df.iterrows()\<close> hands each row over as one series, whose values have one common type.
  A table with an object column (here: a column that holds text or \<open>None\<close>) hands its
  cells over as Python objects, unchanged. A table of integer columns only hands over
  \<open>numpy.int64\<close> values. Any other table of numbers hands every cell over as a float.
\<close>

datatype frame_dtype = ObjectFrame | Int64Frame | Float64Frame

definition frame_dtype_of :: "dataframe \<Rightarrow> frame_dtype" where
  "frame_dtype_of df =
     (if list_ex (\<lambda>row. list_ex (\<lambda>c. is_text (row c) \<or> row c = PNone) (df_columns df)) (df_rows df)
      then ObjectFrame
      else if list_all (\<lambda>row. list_all (\<lambda>c. case row c of PInt n \<Rightarrow> True | _ \<Rightarrow> False)
                                 (df_columns df)) (df_rows df)
      then Int64Frame
      else Float64Frame)"

fun handed :: "frame_dtype \<Rightarrow> pyval \<Rightarrow> pyval" where
  "handed Int64Frame (PInt n) = PInt64 n"
| "handed Float64Frame (PInt n) = PFloat (real_of_int n)"
| "handed dt v = v"

definition iterrows :: "dataframe \<Rightarrow> (string \<Rightarrow> pyval) list" where
  "iterrows df = map (\<lambda>row c. handed (frame_dtype_of df) (row c)) (df_rows df)"

text \<open>\<open>sub in s\<close> on strings; \<open>enumerate(xs, start=k)\<close>; a \<open>for\<close> loop that an exception leaves.\<close>

fun contains :: "string \<Rightarrow> string \<Rightarrow> bool" where
  "contains sub [] = (sub = [])"
| "contains sub (c # s) = (take (length sub) (c # s) = sub \<or> contains sub s)"

definition enumerate_from :: "nat \<Rightarrow> 'a list \<Rightarrow> (nat \<times> 'a) list" where
  "enumerate_from k xs = zip [k..<k + length xs] xs"

fun for_each :: "('a \<Rightarrow> 's \<Rightarrow> error + 's) \<Rightarrow> 'a list \<Rightarrow> 's \<Rightarrow> error + 's" where
  "for_each f [] s = Inr s"
| "for_each f (x # xs) s = (case f x s of Inl e \<Rightarrow> Inl e | Inr s' \<Rightarrow> for_each f xs s')"

text \<open>
  Assigning to the cell at a position: \<open>ws.cell\<close> creates the cell when absent; assigning
  a value to a MergedCell raises AttributeError (its value is read-only).
\<close>

definition write_cell :: "nat \<Rightarrow> nat \<Rightarrow> (cell \<Rightarrow> cell) \<Rightarrow> worksheet \<Rightarrow> error + worksheet" where
  "write_cell r c f ws =
     (case get_cell ws r c of
        MergedCell \<Rightarrow> Inl AttributeError
      | Cell x \<Rightarrow> Inr (put_cell ws r c (f x)))"

text \<open>
  sales\_analysis\_excel\_report.py, lines 189-220. The body of the inner loop, for the value
  \<open>value = row[col_name]\<close> that \<open>iterrows\<close> hands over and the cell at (\<open>row_idx\<close>,
  \<open>col_idx\<close>):
\<close>

definition table_format :: "string \<Rightarrow> string" where
  "table_format col_name =
     (if contains ''Price'' col_name \<or> contains ''Sales'' col_name then currency_format
      else if contains ''Units'' col_name then number_format
      else decimal_format)"

definition data_cell :: "theme \<Rightarrow> nat \<Rightarrow> string \<Rightarrow> pyval \<Rightarrow> cell \<Rightarrow> cell" where
  "data_cell th row_idx col_name v c =
     (if isna v then c\<lparr>cell_value := PStr ''''\<rparr>
      else if is_int_or_float v then
        style_cell th (c\<lparr>cell_value := v\<rparr>) False (row_idx mod 2 = 0) True
          (Some (table_format col_name))
      else style_cell th (c\<lparr>cell_value := v\<rparr>) False (row_idx mod 2 = 0) False None)"

definition header_cell :: "theme \<Rightarrow> string \<Rightarrow> cell \<Rightarrow> cell" where
  "header_cell th col_name c = style_cell th (c\<lparr>cell_value := PStr col_name\<rparr>) True False False None"

definition write_row :: "theme \<Rightarrow> dataframe \<Rightarrow> string list \<Rightarrow> nat \<times> (string \<Rightarrow> pyval) \<Rightarrow> worksheet \<Rightarrow> error + worksheet" where
  "write_row th df cols = (\<lambda>(row_idx, row).
     for_each (\<lambda>(col_idx, col_name) ws.
         if col_name \<notin> set (df_columns df) then Inl KeyError
         else write_cell row_idx col_idx (data_cell th row_idx col_name (row col_name)) ws)
       (enumerate_from 1 cols))"

definition write_data_table ::
  "theme \<Rightarrow> worksheet \<Rightarrow> dataframe \<Rightarrow> nat \<Rightarrow> string list option \<Rightarrow> error + worksheet \<times> nat" where
  "write_data_table th ws df start_row columns =
     (let cols = (case columns of None \<Rightarrow> df_columns df | Some cs \<Rightarrow> cs) in
      case for_each (\<lambda>(col_idx, col_name). write_cell start_row col_idx (header_cell th col_name))
             (enumerate_from 1 cols) ws of
        Inl e \<Rightarrow> Inl e
      | Inr ws1 \<Rightarrow>
          (case for_each (write_row th df cols) (enumerate_from (start_row + 1) (iterrows df)) ws1 of
             Inl e \<Rightarrow> Inl e
           | Inr ws2 \<Rightarrow> Inr (ws2, start_row + length (df_rows df) + 1)))"




section \<open>The period tables of the sales report\<close>

text \<open>
  The number that a numeric cell value denotes; a missing value or a text denotes none.
\<close>

fun num_of :: "pyval \<Rightarrow> real option" where
  "num_of (PInt n) = Some (real_of_int n)"
| "num_of (PInt64 n) = Some (real_of_int n)"
| "num_of (PFloat x) = Some x"
| "num_of _ = None"

text \<open>
  \<open>df[[c1, ..., cn]]\<close> keeps the listed columns and raises KeyError when one is absent.
  \<open>df.sort_values(col, ascending=False)\<close> orders the rows by decreasing value of a numeric
  column, with the rows whose value is missing last; it raises KeyError for an absent
  column, and comparing text with numbers raises TypeError. The order that pandas gives to
  rows with equal values is not fixed by its sorting method; the model inserts each row
  before the first row that it may precede. \<open>df.columns = names\<close> renames the columns by
  position and raises ValueError when the lengths differ.
\<close>

definition select_columns :: "dataframe \<Rightarrow> string list \<Rightarrow> error + dataframe" where
  "select_columns df cols =
     (if set cols \<subseteq> set (df_columns df) then Inr (df\<lparr>df_columns := cols\<rparr>) else Inl KeyError)"

fun before :: "real option \<Rightarrow> real option \<Rightarrow> bool" where
  "before (Some x) (Some y) = (y \<le> x)"
| "before (Some x) None = True"
| "before None (Some y) = False"
| "before None None = True"

fun insert_desc :: "('a \<Rightarrow> real option) \<Rightarrow> 'a \<Rightarrow> 'a list \<Rightarrow> 'a list" where
  "insert_desc key x [] = [x]"
| "insert_desc key x (y # ys) =
     (if before (key x) (key y) then x # y # ys else y # insert_desc key x ys)"

definition sort_desc :: "('a \<Rightarrow> real option) \<Rightarrow> 'a list \<Rightarrow> 'a list" where
  "sort_desc key xs = foldr (insert_desc key) xs []"

definition sort_values :: "dataframe \<Rightarrow> string \<Rightarrow> error + dataframe" where
  "sort_values df col =
     (if col \<notin> set (df_columns df) then Inl KeyError
      else if list_ex (\<lambda>row. is_text (row col)) (df_rows df) then Inl TypeError
      else Inr (df\<lparr>df_rows := sort_desc (\<lambda>row. num_of (row col)) (df_rows df)\<rparr>))"

definition rename_columns :: "dataframe \<Rightarrow> string list \<Rightarrow> error + dataframe" where
  "rename_columns df names =
     (if length names \<noteq> length (df_columns df) then Inl ValueError
      else Inr \<lparr>df_columns = names,
                df_rows = map (\<lambda>row name. case map_of (zip names (df_columns df)) name of
                                             None \<Rightarrow> PNone
                                           | Some old \<Rightarrow> row old) (df_rows df)\<rparr>)"

text \<open>
  sales\_analysis\_excel\_report.py, lines 348-350, 402-404 and 453-455: the same three
  statements for the column prefixes \<open>7D\<close>, \<open>30D\<close> and \<open>90D\<close>. The table is then written
  by \<open>write_data_table(ws, table, start_row=3)\<close> (lines 353, 406, 457).
\<close>

definition period_table :: "dataframe \<Rightarrow> string \<Rightarrow> error + dataframe" where
  "period_table df p =
     (case select_columns df [''Size'', p @ '' Units'', p @ '' Sales'', p @ '' Net Sales'',
                              p @ '' Avg Price''] of
        Inl e \<Rightarrow> Inl e
      | Inr d \<Rightarrow>
          (case sort_values d (p @ '' Units'') of
             Inl e \<Rightarrow> Inl e
           | Inr d' \<Rightarrow> rename_columns d' [''Size'', ''Units'', ''Gross Sales'', ''Net Sales'',
                                         ''Avg Price'']))"

definition write_period_table :: "worksheet \<Rightarrow> dataframe \<Rightarrow> string \<Rightarrow> error + worksheet \<times> nat" where
  "write_period_table ws df p =
     (case period_table df p of
        Inl e \<Rightarrow> Inl e
      | Inr table \<Rightarrow> write_data_table sales_theme ws table 3 None)"


text \<open>
  A row given by its cells, and a small table of two SKUs with every column that the sales
  report expects (and the \<open>Size\<close> column that the report derives), for worked examples.
\<close>

definition row_of :: "(string \<times> pyval) list \<Rightarrow> string \<Rightarrow> pyval" where
  "row_of cells name = (case map_of cells name of None \<Rightarrow> PNone | Some v \<Rightarrow> v)"

definition sku_columns :: "string list" where
  "sku_columns = [''SKU'', ''Product Name'', ''Category'', ''Color'',
     ''7D Units'', ''7D Sales'', ''7D Net Sales'', ''7D Avg Price'',
     ''30D Units'', ''30D Sales'', ''30D Net Sales'', ''30D Avg Price'',
     ''90D Units'', ''90D Sales'', ''90D Net Sales'', ''90D Avg Price'', ''Size'']"

definition two_skus :: dataframe where
  "two_skus = \<lparr>df_columns = sku_columns,
     df_rows = [
       row_of [(''SKU'', PStr ''TEE-38''), (''Product Name'', PStr ''Tee''),
               (''Category'', PStr ''Tops''), (''Color'', PStr ''Black''),
               (''7D Units'', PInt 2), (''7D Sales'', PFloat 40), (''7D Net Sales'', PFloat 36),
               (''7D Avg Price'', PFloat 20),
               (''30D Units'', PInt 9), (''30D Sales'', PFloat 180), (''30D Net Sales'', PFloat 160),
               (''30D Avg Price'', PFloat 20),
               (''90D Units'', PInt 20), (''90D Sales'', PFloat 400), (''90D Net Sales'', PFloat 360),
               (''90D Avg Price'', PFloat 20), (''Size'', PStr ''38'')],
       row_of [(''SKU'', PStr ''TEE-40''), (''Product Name'', PStr ''Tee''),
               (''Category'', PStr ''Tops''), (''Color'', PStr ''Black''),
               (''7D Units'', PInt 5), (''7D Sales'', PFloat 100), (''7D Net Sales'', PFloat 90),
               (''7D Avg Price'', PFloat 20),
               (''30D Units'', PInt 7), (''30D Sales'', PFloat 140), (''30D Net Sales'', PFloat 126),
               (''30D Avg Price'', PFloat 20),
               (''90D Units'', PInt 30), (''90D Sales'', PFloat 600), (''90D Net Sales'', PFloat 540),
               (''90D Avg Price'', PFloat 20), (''Size'', PStr ''40'')]]\<rparr>"


section \<open>Daily aggregates and ratios\<close>

text \<open>
  charts\_example.py (lines 44-55), pdf\_report\_example.py (lines 43-63) and
  excel\_export\_example.py (lines 63-77) start alike: the column \<open>Day\<close> is converted by
  \<open>pd.to_datetime\<close>, the table is grouped by day and the measure columns are summed, and
  ratios of the sums are added as columns.

  The conversion of one cell is the library's and is a parameter \<open>conv\<close>: it raises, or
  gives no time (NaT) or a time, here an integer. \<open>sum\<close> skips missing values; a number
  counts as its value. The measure columns are numeric in the data model. Text in a
  measure column is outside it: pandas joins the texts of a group, and a later statement
  raises when it divides or formats them; the model reports TypeError where the column is
  aggregated.
\<close>

definition measure_value :: "pyval \<Rightarrow> real" where
  "measure_value v = (case num_of v of None \<Rightarrow> 0 | Some x \<Rightarrow> x)"

fun first_error :: "(error + 'a) list \<Rightarrow> error option" where
  "first_error [] = None"
| "first_error (Inl e # rs) = Some e"
| "first_error (Inr x # rs) = first_error rs"

definition day_of :: "(pyval \<Rightarrow> error + int option) \<Rightarrow> pyval \<Rightarrow> int option" where
  "day_of conv v = (case conv v of Inl e \<Rightarrow> None | Inr d \<Rightarrow> d)"

text \<open>
  \<open>df.groupby(by).agg({c: 'sum', ...}).reset_index()\<close>: KeyError for an absent column;
  the rows without a key are dropped; the result has the keys in increasing order, each
  with the sums of its rows. The groups are accumulated row by row: a row is added to the
  sums of its key, or opens a group at the key's place.
\<close>

fun add_group :: "'k::linorder \<Rightarrow> (string \<Rightarrow> real) \<Rightarrow> ('k \<times> (string \<Rightarrow> real)) list
    \<Rightarrow> ('k \<times> (string \<Rightarrow> real)) list" where
  "add_group k vals [] = [(k, vals)]"
| "add_group k vals ((k', acc) # gs) =
     (if k = k' then (k', (\<lambda>c. acc c + vals c)) # gs
      else if k < k' then (k, vals) # (k', acc) # gs
      else (k', acc) # add_group k vals gs)"

definition add_row :: "(pyval \<Rightarrow> 'k::linorder option) \<Rightarrow> string \<Rightarrow> string list
    \<Rightarrow> ('k \<times> (string \<Rightarrow> real)) list \<Rightarrow> (string \<Rightarrow> pyval) \<Rightarrow> ('k \<times> (string \<Rightarrow> real)) list" where
  "add_row key_of by cols gs row =
     (case key_of (row by) of
        None \<Rightarrow> gs
      | Some k \<Rightarrow> add_group k (\<lambda>c. if c \<in> set cols then measure_value (row c) else 0) gs)"

definition groupby_sum :: "(pyval \<Rightarrow> 'k::linorder option) \<Rightarrow> dataframe \<Rightarrow> string \<Rightarrow> string list
    \<Rightarrow> error + ('k \<times> (string \<Rightarrow> real)) list" where
  "groupby_sum key_of df by cols =
     (if by \<notin> set (df_columns df) \<or> \<not> set cols \<subseteq> set (df_columns df) then Inl KeyError
      else if list_ex (\<lambda>row. list_ex (\<lambda>c. is_text (row c)) cols) (df_rows df) then Inl TypeError
      else Inr (foldl (add_row key_of by cols) [] (df_rows df)))"

definition daily_table :: "(pyval \<Rightarrow> error + int option) \<Rightarrow> dataframe \<Rightarrow> string list
    \<Rightarrow> error + (int \<times> (string \<Rightarrow> real)) list" where
  "daily_table conv df cols =
     (if ''Day'' \<notin> set (df_columns df) then Inl KeyError
      else case first_error (map (\<lambda>row. conv (row ''Day'')) (df_rows df)) of
             Some e \<Rightarrow> Inl e
           | None \<Rightarrow> groupby_sum (day_of conv) df ''Day'' cols)"

definition charts_measures :: "string list" where
  "charts_measures = [''Orders'', ''Gross sales'', ''Net sales'', ''Gross profit'', ''Discounts'']"

definition pdf_measures :: "string list" where
  "pdf_measures = [''Orders'', ''Gross sales'', ''Net sales'', ''Gross profit'', ''Discounts'',
     ''Quantity ordered'']"

definition excel_measures :: "string list" where
  "excel_measures = [''Orders'', ''Gross sales'', ''Discounts'', ''Net sales'', ''Gross profit'',
     ''Quantity ordered'']"

text \<open>
  Division of numpy numbers and of pandas columns does not raise on a zero denominator:
  the quotient is then infinite, or not a number for \<open>0 / 0\<close>. Division of Python's own
  numbers raises ZeroDivisionError on a zero denominator.
\<close>

datatype ratio = Finite real | PosInf | NegInf | NotANumber

definition np_div :: "real \<Rightarrow> real \<Rightarrow> ratio" where
  "np_div x y =
     (if y \<noteq> 0 then Finite (x / y)
      else if 0 < x then PosInf else if x < 0 then NegInf else NotANumber)"

definition py_div :: "real \<Rightarrow> real \<Rightarrow> error + ratio" where
  "py_div x y = (if y = 0 then Inl ZeroDivisionError else Inr (Finite (x / y)))"

text \<open>Product and sum of floats that may be infinite or not a number.\<close>

fun ratio_times :: "ratio \<Rightarrow> real \<Rightarrow> ratio" where
  "ratio_times (Finite x) k = Finite (x * k)"
| "ratio_times PosInf k = (if 0 < k then PosInf else if k < 0 then NegInf else NotANumber)"
| "ratio_times NegInf k = (if 0 < k then NegInf else if k < 0 then PosInf else NotANumber)"
| "ratio_times NotANumber k = NotANumber"



text \<open>
  The overall figures of pdf\_report\_example.py (lines 58-63) and of the summary sheet of
  excel\_export\_example.py (lines 118-119): column totals of the daily table, divided. The
  totals of numeric columns are numpy numbers. A table without rows, as pandas reads it
  from a CSV file that has a header line only, has columns of dtype object; the totals of
  the daily table are then Python's \<open>int\<close> 0, and the division is Python's.
\<close>

definition column_total :: "(int \<times> (string \<Rightarrow> real)) list \<Rightarrow> string \<Rightarrow> real" where
  "column_total daily c = sum_list (map (\<lambda>(d, acc). acc c) daily)"

definition total_ratio :: "dataframe \<Rightarrow> real \<Rightarrow> real \<Rightarrow> error + ratio" where
  "total_ratio df x y = (if df_rows df = [] then py_div x y else Inr (np_div x y))"

definition avg_aov :: "dataframe \<Rightarrow> (int \<times> (string \<Rightarrow> real)) list \<Rightarrow> error + ratio" where
  "avg_aov df daily =
     total_ratio df (column_total daily ''Gross sales'') (column_total daily ''Orders'')"

definition gross_margin :: "dataframe \<Rightarrow> (int \<times> (string \<Rightarrow> real)) list \<Rightarrow> error + ratio" where
  "gross_margin df daily =
     total_ratio df (column_total daily ''Gross profit'') (column_total daily ''Net sales'')"





text \<open>
  The sum of a measure over the rows of the input whose day is a given one, and over the
  rows that have a day at all, as the specification words the aggregates.
\<close>

definition day_sum :: "(pyval \<Rightarrow> error + int option) \<Rightarrow> dataframe \<Rightarrow> int \<Rightarrow> string \<Rightarrow> real" where
  "day_sum conv df d c =
     sum_list (map (\<lambda>row. measure_value (row c))
                 (filter (\<lambda>row. day_of conv (row ''Day'') = Some d) (df_rows df)))"


text \<open>The key of a customer segment: its text; a missing cell has no key.\<close>

definition segment_of :: "pyval \<Rightarrow> string option" where
  "segment_of v = (case v of PStr s \<Rightarrow> Some s | _ \<Rightarrow> None)"



text \<open>The sum accumulated for a key and a column in a list of groups (0 without the key).\<close>

definition acc_at :: "('k \<times> (string \<Rightarrow> real)) list \<Rightarrow> 'k \<Rightarrow> string \<Rightarrow> real" where
  "acc_at gs k c = (case map_of gs k of None \<Rightarrow> 0 | Some acc \<Rightarrow> acc c)"

text \<open>
  For worked examples: a conversion that reads an integer cell as its day number and a
  missing cell as no day, and a table of three order lines on two days.
\<close>

fun day_number :: "pyval \<Rightarrow> error + int option" where
  "day_number (PInt n) = Inr (Some n)"
| "day_number PNone = Inr None"
| "day_number PNaN = Inr None"
| "day_number _ = Inl ValueError"

definition order_columns :: "string list" where
  "order_columns = [''Day'', ''New or returning customer'', ''Orders'', ''Gross sales'',
     ''Discounts'', ''Net sales'', ''Gross profit'', ''Quantity ordered'']"

definition three_orders :: dataframe where
  "three_orders = \<lparr>df_columns = order_columns,
     df_rows = [
       row_of [(''Day'', PInt 1), (''New or returning customer'', PStr ''New''),
               (''Orders'', PInt 2), (''Gross sales'', PFloat 50), (''Discounts'', PFloat (-5)),
               (''Net sales'', PFloat 45), (''Gross profit'', PFloat 20),
               (''Quantity ordered'', PInt 3)],
       row_of [(''Day'', PInt 2), (''New or returning customer'', PStr ''New''),
               (''Orders'', PInt 1), (''Gross sales'', PFloat 30), (''Discounts'', PFloat 0),
               (''Net sales'', PFloat 30), (''Gross profit'', PFloat 12),
               (''Quantity ordered'', PInt 1)],
       row_of [(''Day'', PInt 1), (''New or returning customer'', PStr ''Returning''),
               (''Orders'', PInt 3), (''Gross sales'', PFloat 70), (''Discounts'', PFloat (-10)),
               (''Net sales'', PFloat 60), (''Gross profit'', PFloat 25),
               (''Quantity ordered'', PInt 4)]]\<rparr>"


section \<open>Runs of the scripts\<close>

text \<open>
  A script runs its statements in order until one raises; nothing catches an exception at
  the top level. A run is modelled by its outcome (the exception, or a result) and the
  names of the files it has written, in order. The statements that can raise on the
  loaded table are modelled: reading an absent column (KeyError), indexing an empty table
  (IndexError), aggregating text (TypeError), the conversion of \<open>Day\<close>, Python's division
  by zero (ZeroDivisionError), and the calls into the plotting and spreadsheet libraries
  that refuse the data of a table without rows or without two customer segments. What
  else the calls that draw a figure or lay out a document do is not modelled; of a
  \<open>savefig\<close>, \<open>wb.save\<close> or \<open>doc.build\<close> the model keeps the name of the file written.
  Printing is not modelled.
\<close>

datatype 'a run = Run (outcome: "error + 'a") (written: "string list")

definition lift :: "error + 'a \<Rightarrow> 'a run" where
  "lift r = Run r []"

definition finish :: "'a \<Rightarrow> 'a run" where
  "finish x = Run (Inr x) []"

definition save_file :: "string \<Rightarrow> unit run" where
  "save_file name = Run (Inr ()) [name]"

definition bind_run :: "'a run \<Rightarrow> ('a \<Rightarrow> 'b run) \<Rightarrow> 'b run" where
  "bind_run m f =
     (case outcome m of
        Inl e \<Rightarrow> Run (Inl e) (written m)
      | Inr x \<Rightarrow> Run (outcome (f x)) (written m @ written (f x)))"

text \<open>\<open>s.iloc[-1]\<close>, \<open>s.iloc[0]\<close> and \<open>s.idxmax()\<close> (the first position of the largest
  value that is not missing; ValueError when there is none).\<close>

definition iloc_last :: "'a list \<Rightarrow> error + 'a" where
  "iloc_last xs = (if xs = [] then Inl IndexError else Inr (last xs))"

definition iloc_first :: "'a list \<Rightarrow> error + 'a" where
  "iloc_first xs = (case xs of [] \<Rightarrow> Inl IndexError | x # _ \<Rightarrow> Inr x)"

fun idxmax_from :: "real option list \<Rightarrow> nat \<Rightarrow> (nat \<times> real) option \<Rightarrow> (nat \<times> real) option" where
  "idxmax_from [] i best = best"
| "idxmax_from (None # vs) i best = idxmax_from vs (Suc i) best"
| "idxmax_from (Some x # vs) i best =
     idxmax_from vs (Suc i)
       (case best of None \<Rightarrow> Some (i, x)
                   | Some (j, y) \<Rightarrow> if y < x then Some (i, x) else Some (j, y))"

definition idxmax :: "real option list \<Rightarrow> error + nat" where
  "idxmax vs = (case idxmax_from vs 0 None of None \<Rightarrow> Inl ValueError | Some (i, x) \<Rightarrow> Inr i)"

subsection \<open>charts\_example.py\<close>

text \<open>
  Lines 44-55 build the daily table and its ratio columns. Chart 1 plots the daily table
  (\<open>ax.fill_between\<close>, line 66): of a table without rows the measure columns have dtype
  object, which matplotlib refuses with TypeError. It then reads the last day
  (\<open>daily['Day'].iloc[-1]\<close>, line 80). Chart 2 reads the day with most orders (\<open>idxmax\<close>,
  line 98). Chart 4 groups the input by customer type (lines 156-159) and draws two pies
  (lines 164-178) with \<open>explode=(0.02, 0.02)\<close>: \<open>pie\<close> raises ValueError when the number
  of wedges is not the length of \<open>explode\<close>, and when a wedge size is negative. Each of the
  six charts ends in a \<open>plt.savefig\<close> with a literal file name.
\<close>

definition fill_between :: "dataframe \<Rightarrow> error + unit" where
  "fill_between df = (if df_rows df = [] then Inl TypeError else Inr ())"

definition pie :: "real list \<Rightarrow> nat \<Rightarrow> error + unit" where
  "pie x explode =
     (if list_ex (\<lambda>v. v < 0) x \<or> length x \<noteq> explode then Inl ValueError else Inr ())"

definition charts_example :: "(pyval \<Rightarrow> error + int option) \<Rightarrow> dataframe \<Rightarrow> unit run" where
  "charts_example conv df =
     bind_run (lift (daily_table conv df charts_measures)) (\<lambda>daily.
     bind_run (lift (fill_between df)) (\<lambda>_.
     bind_run (lift (iloc_last (map fst daily))) (\<lambda>last_day.
     bind_run (save_file ''chart_line_sales.png'') (\<lambda>_.
     bind_run (lift (idxmax (map (\<lambda>(d, acc). Some (acc ''Orders'')) daily))) (\<lambda>max_idx.
     bind_run (save_file ''chart_bar_orders.png'') (\<lambda>_.
     bind_run (save_file ''chart_dual_axis.png'') (\<lambda>_.
     bind_run (lift (groupby_sum segment_of df ''New or returning customer''
                       [''Orders'', ''Gross sales''])) (\<lambda>customer_data.
     bind_run (lift (pie (map (\<lambda>(s, acc). acc ''Orders'') customer_data) 2)) (\<lambda>_.
     bind_run (lift (pie (map (\<lambda>(s, acc). acc ''Gross sales'') customer_data) 2)) (\<lambda>_.
     bind_run (save_file ''chart_pie_customers.png'') (\<lambda>_.
     bind_run (save_file ''chart_comparison.png'') (\<lambda>_.
     bind_run (save_file ''chart_heatmap.png'') (\<lambda>_.
     finish ())))))))))))))"

subsection \<open>pdf\_report\_example.py\<close>

text \<open>
  Lines 43-63 build the daily table and the figures of the report: the two divisions of
  lines 62 and 63 come before any file. Lines 76-115 save three charts; lines 122-268
  build the document, which \<open>doc.build\<close> writes under the name given to
  \<open>SimpleDocTemplate\<close>.
\<close>

record pdf_kpis =
  kpi_total_orders :: real
  kpi_total_gross_sales :: real
  kpi_total_net_sales :: real
  kpi_total_gross_profit :: real
  kpi_avg_aov :: ratio
  kpi_gross_margin :: ratio

definition pdf_report_example :: "(pyval \<Rightarrow> error + int option) \<Rightarrow> dataframe \<Rightarrow> pdf_kpis run" where
  "pdf_report_example conv df =
     bind_run (lift (daily_table conv df pdf_measures)) (\<lambda>daily.
     bind_run (lift (avg_aov df daily)) (\<lambda>aov.
     bind_run (lift (gross_margin df daily)) (\<lambda>margin.
     bind_run (save_file ''chart_daily_sales.png'') (\<lambda>_.
     bind_run (save_file ''chart_daily_orders.png'') (\<lambda>_.
     bind_run (save_file ''chart_aov_trend.png'') (\<lambda>_.
     bind_run (save_file ''november_kpi_report.pdf'') (\<lambda>_.
     finish \<lparr>kpi_total_orders = column_total daily ''Orders'',
             kpi_total_gross_sales = column_total daily ''Gross sales'',
             kpi_total_net_sales = column_total daily ''Net sales'',
             kpi_total_gross_profit = column_total daily ''Gross profit'',
             kpi_avg_aov = aov,
             kpi_gross_margin = ratio_times margin 100\<rparr>)))))))"

subsection \<open>excel\_export\_example.py\<close>

text \<open>
  Lines 63-89 build the daily table and the customer summary; lines 96-295 fill a
  workbook; line 301 saves it under a literal name. The list of figures of the summary
  sheet holds the two divisions of lines 118 and 119. The conditional formatting of the
  daily sheet (line 195) names the range \<open>I2:I{len(daily)+1}\<close>, which openpyxl refuses
  with TypeError when the daily table has no row.
\<close>

definition conditional_formatting :: "'a list \<Rightarrow> error + unit" where
  "conditional_formatting daily = (if daily = [] then Inl TypeError else Inr ())"

definition excel_export_example :: "(pyval \<Rightarrow> error + int option) \<Rightarrow> dataframe \<Rightarrow> unit run" where
  "excel_export_example conv df =
     bind_run (lift (daily_table conv df excel_measures)) (\<lambda>daily.
     bind_run (lift (groupby_sum segment_of df ''New or returning customer''
                       [''Orders'', ''Gross sales'', ''Net sales'', ''Gross profit''])) (\<lambda>customer_summary.
     bind_run (lift (avg_aov df daily)) (\<lambda>aov.
     bind_run (lift (gross_margin df daily)) (\<lambda>margin.
     bind_run (lift (conditional_formatting daily)) (\<lambda>_.
     bind_run (save_file ''november_2025_report.xlsx'') (\<lambda>_.
     finish ()))))))"


subsection \<open>sales\_analysis\_excel\_report.py\<close>

text \<open>
  Line 229 derives the column \<open>Size\<close> from \<open>SKU\<close> with a regular expression, through the
  accessor \<open>.str\<close>; the derivation of one cell is a parameter \<open>size_of\<close>. The accessor
  exists for a column of text only: in a table read from a CSV file that is a column with
  a text cell, or the column of a table without rows; on a column of numbers, or of
  missing values only, \<open>df['SKU'].str\<close> raises AttributeError. Lines 232-244 read twelve
  measure columns, summing nine and averaging three. The measure columns are numeric in
  the data model; text in one of them makes a later statement of the script raise
  (TypeError or ValueError, by the column and the statement that meets the text first),
  which the model reports as TypeError where the column is read.
\<close>

definition str_accessor :: "dataframe \<Rightarrow> string \<Rightarrow> error + unit" where
  "str_accessor df c =
     (if df_rows df = [] \<or> list_ex (\<lambda>row. is_text (row c)) (df_rows df) then Inr ()
      else Inl AttributeError)"

definition add_size :: "(pyval \<Rightarrow> pyval) \<Rightarrow> dataframe \<Rightarrow> error + dataframe" where
  "add_size size_of df =
     (if ''SKU'' \<notin> set (df_columns df) then Inl KeyError
      else case str_accessor df ''SKU'' of
             Inl e \<Rightarrow> Inl e
           | Inr _ \<Rightarrow>
               Inr \<lparr>df_columns = (if ''Size'' \<in> set (df_columns df) then df_columns df
                                   else df_columns df @ [''Size'']),
                    df_rows = map (\<lambda>row. row(''Size'' := size_of (row ''SKU''))) (df_rows df)\<rparr>)"

definition metric_columns :: "string list" where
  "metric_columns = [''7D Units'', ''7D Sales'', ''7D Net Sales'',
     ''30D Units'', ''30D Sales'', ''30D Net Sales'',
     ''90D Units'', ''90D Sales'', ''90D Net Sales'',
     ''7D Avg Price'', ''30D Avg Price'', ''90D Avg Price'']"

definition read_measure :: "dataframe \<Rightarrow> string \<Rightarrow> unit \<Rightarrow> error + unit" where
  "read_measure df c = (\<lambda>_.
     if c \<notin> set (df_columns df) then Inl KeyError
     else if list_ex (\<lambda>row. is_text (row c)) (df_rows df) then Inl TypeError
     else Inr ())"

definition check_measures :: "dataframe \<Rightarrow> string list \<Rightarrow> error + unit" where
  "check_measures df cols = for_each (read_measure df) cols ()"

definition total :: "dataframe \<Rightarrow> string \<Rightarrow> real" where
  "total df c = sum_list (map (\<lambda>row. measure_value (row c)) (df_rows df))"


text \<open>
  Lines 246-248: \<open>df.loc[df[col].idxmax(), 'Size'] if total > 0 else 'N/A'\<close>.
  Lines 250-252: \<open>df[col].iloc[0] if col in df.columns else fallback\<close>.
\<close>

definition top_seller :: "dataframe \<Rightarrow> string \<Rightarrow> error + pyval" where
  "top_seller df units =
     (if 0 < total df units then
        (case idxmax (map (\<lambda>row. num_of (row units)) (df_rows df)) of
           Inl e \<Rightarrow> Inl e
         | Inr i \<Rightarrow> if i < length (df_rows df) then Inr ((df_rows df ! i) ''Size'')
                    else Inl KeyError)
      else Inr (PStr ''N/A''))"

definition first_or :: "dataframe \<Rightarrow> string \<Rightarrow> string \<Rightarrow> error + pyval" where
  "first_or df c fallback =
     (if c \<in> set (df_columns df) then iloc_first (map (\<lambda>row. row c) (df_rows df))
      else Inr (PStr fallback))"

text \<open>
  The ratios of the commentary, each under its guard (lines 327, 486 and 580-582). In a
  guarded branch the denominator is positive.
\<close>

definition growth_7_to_30 :: "real \<Rightarrow> real \<Rightarrow> real" where
  "growth_7_to_30 total_7d_units total_30d_units =
     (if 0 < total_7d_units then (total_30d_units / total_7d_units * 30 / 7 - 1) * 100 else 0)"

definition margin_pct :: "real \<Rightarrow> real \<Rightarrow> real" where
  "margin_pct total_90d_net total_90d_sales =
     (if 0 < total_90d_sales then total_90d_net / total_90d_sales * 100 else 0)"

definition weekly_rate :: "real \<Rightarrow> real" where
  "weekly_rate total_90d_sales = (if 0 < total_90d_sales then total_90d_sales / 13 else 0)"

definition velocity_change :: "real \<Rightarrow> real \<Rightarrow> real" where
  "velocity_change total_7d_sales total_90d_sales =
     (if 0 < weekly_rate total_90d_sales
      then (total_7d_sales / weekly_rate total_90d_sales - 1) * 100 else 0)"

text \<open>
  \<open>fill_background\<close> (lines 94-98) and \<open>add_title\<close> (lines 101-107). Merging a range
  turns every cell of it but the first into a MergedCell. Row heights are not modelled.
\<close>

definition set_fill :: "string \<Rightarrow> nat \<Rightarrow> nat \<Rightarrow> worksheet \<Rightarrow> worksheet" where
  "set_fill colour r c ws =
     (case get_cell ws r c of
        MergedCell \<Rightarrow> touch ws r c
      | Cell x \<Rightarrow> put_cell ws r c (x\<lparr>cell_fill := Some colour\<rparr>))"

definition fill_background :: "theme \<Rightarrow> worksheet \<Rightarrow> nat \<Rightarrow> nat \<Rightarrow> worksheet" where
  "fill_background th ws rows cols =
     fold (\<lambda>row. fold (\<lambda>col. set_fill (data_fill th) row col) [1..<cols]) [1..<rows] ws"

definition merge_cells :: "worksheet \<Rightarrow> nat \<Rightarrow> nat \<Rightarrow> nat \<Rightarrow> nat \<Rightarrow> worksheet" where
  "merge_cells ws start_row start_column end_row end_column =
     ws\<lparr>ws_cells := (\<lambda>(r, c).
            if start_row \<le> r \<and> r \<le> end_row \<and> start_column \<le> c \<and> c \<le> end_column
               \<and> (r, c) \<noteq> (start_row, start_column)
            then Some MergedCell else ws_cells ws (r, c)),
        last_row := max (last_row ws) end_row,
        last_column := max (last_column ws) end_column\<rparr>"

definition add_title :: "theme \<Rightarrow> worksheet \<Rightarrow> string \<Rightarrow> nat \<Rightarrow> nat \<Rightarrow> error + worksheet" where
  "add_title th ws title row cols =
     (case write_cell row 1 (\<lambda>c. c\<lparr>cell_value := PStr title, cell_fill := Some (title_fill th),
                                    cell_font := Some (title_font th)\<rparr>) ws of
        Inl e \<Rightarrow> Inl e
      | Inr ws' \<Rightarrow> Inr (merge_cells ws' row 1 row cols))"

text \<open>
  A period sheet up to its table (lines 342-353, 397-406, 448-457) and the comparison
  sheet up to its table (lines 500-509). The statements that follow on each sheet (chart
  data, charts, commentary, column widths) raise nothing on a table that got this far, and
  the summary sheet (lines 260-337) only writes the figures computed before it; they are
  not part of the run's model.
\<close>

definition period_sheet :: "dataframe \<Rightarrow> string \<Rightarrow> string \<Rightarrow> error + worksheet" where
  "period_sheet df p title =
     (case add_title sales_theme (fill_background sales_theme new_sheet 60 12) title 1 7 of
        Inl e \<Rightarrow> Inl e
      | Inr ws \<Rightarrow>
          (case write_period_table ws df p of
             Inl e \<Rightarrow> Inl e
           | Inr (ws', table_end) \<Rightarrow> Inr ws'))"

definition comparison_sheet :: "dataframe \<Rightarrow> error + worksheet" where
  "comparison_sheet df =
     (case add_title sales_theme (fill_background sales_theme new_sheet 60 15)
             ''PERIOD COMPARISON ANALYSIS'' 1 10 of
        Inl e \<Rightarrow> Inl e
      | Inr ws \<Rightarrow>
          (case select_columns df [''Size'', ''7D Units'', ''7D Sales'', ''30D Units'',
                                   ''30D Sales'', ''90D Units'', ''90D Sales''] of
             Inl e \<Rightarrow> Inl e
           | Inr d \<Rightarrow>
               (case sort_values d ''90D Units'' of
                  Inl e \<Rightarrow> Inl e
                | Inr df_compare \<Rightarrow>
                    (case write_data_table sales_theme ws df_compare 3 None of
                       Inl e \<Rightarrow> Inl e
                     | Inr (ws', table_end) \<Rightarrow> Inr ws'))))"

record sales_report =
  r_top_seller_7d :: pyval
  r_top_seller_30d :: pyval
  r_top_seller_90d :: pyval
  r_product_name :: pyval
  r_category :: pyval
  r_color :: pyval
  r_growth_7_to_30 :: real
  r_margin_pct :: real
  r_velocity_change :: real
  r_sheets :: "worksheet list"

definition sales_analysis_excel_report :: "(pyval \<Rightarrow> pyval) \<Rightarrow> dataframe \<Rightarrow> sales_report run" where
  "sales_analysis_excel_report size_of df0 =
     bind_run (lift (add_size size_of df0)) (\<lambda>df.
     bind_run (lift (check_measures df metric_columns)) (\<lambda>_.
     bind_run (lift (top_seller df ''7D Units'')) (\<lambda>top_seller_7d.
     bind_run (lift (top_seller df ''30D Units'')) (\<lambda>top_seller_30d.
     bind_run (lift (top_seller df ''90D Units'')) (\<lambda>top_seller_90d.
     bind_run (lift (first_or df ''Product Name'' ''Product'')) (\<lambda>product_name.
     bind_run (lift (first_or df ''Category'' ''Category'')) (\<lambda>category.
     bind_run (lift (first_or df ''Color'' ''Color'')) (\<lambda>color.
     bind_run (lift (period_sheet df ''7D'' ''7-DAY PERFORMANCE ANALYSIS'')) (\<lambda>ws_7d.
     bind_run (lift (period_sheet df ''30D'' ''30-DAY PERFORMANCE ANALYSIS'')) (\<lambda>ws_30d.
     bind_run (lift (period_sheet df ''90D'' ''90-DAY PERFORMANCE ANALYSIS'')) (\<lambda>ws_90d.
     bind_run (lift (comparison_sheet df)) (\<lambda>ws_compare.
     bind_run (save_file ''sales_analysis_report.xlsx'') (\<lambda>_.
     finish \<lparr>r_top_seller_7d = top_seller_7d, r_top_seller_30d = top_seller_30d,
             r_top_seller_90d = top_seller_90d, r_product_name = product_name,
             r_category = category, r_color = color,
             r_growth_7_to_30 = growth_7_to_30 (total df ''7D Units'') (total df ''30D Units''),
             r_margin_pct = margin_pct (total df ''90D Net Sales'') (total df ''90D Sales''),
             r_velocity_change = velocity_change (total df ''7D Sales'') (total df ''90D Sales''),
             r_sheets = [ws_7d, ws_30d, ws_90d, ws_compare]\<rparr>)))))))))))))"

subsection \<open>test\_sales\_report.py\<close>

text \<open>
  The harness changes to its own directory, chooses the CSV path, loads the table, and
  executes the text of the report script with \<open>exec\<close>, which runs it in the harness's
  global names. Reading a CSV file, reading a text file and executing Python text belong
  to the environment and are parameters; the global names are a map from names to values.
\<close>

datatype binding = BStr string | BFrame dataframe

definition csv_path :: "string list \<Rightarrow> string" where
  "csv_path argv = (if 1 < length argv then argv ! 1 else ''sample_sales_data.csv'')"

definition test_sales_report ::
  "(string \<Rightarrow> string \<Rightarrow> error + dataframe) \<Rightarrow> (string \<Rightarrow> string \<Rightarrow> error + string)
   \<Rightarrow> (string \<Rightarrow> (string \<Rightarrow> binding option) \<Rightarrow> 'r run)
   \<Rightarrow> string \<Rightarrow> string list \<Rightarrow> 'r run" where
  "test_sales_report read_csv read_text exec script_dir argv =
     (let cwd = script_dir;
          csv_file = csv_path argv
      in bind_run (lift (read_csv cwd csv_file)) (\<lambda>df.
         bind_run (lift (read_text cwd ''sales_analysis_excel_report.py'')) (\<lambda>text.
         exec text [''csv_file'' \<mapsto> BStr csv_file, ''df'' \<mapsto> BFrame df])))"

text \<open>
  The report script finds its table under the global name \<open>df\<close>; a name that is not
  bound raises NameError.
\<close>

definition run_report :: "(pyval \<Rightarrow> pyval) \<Rightarrow> (string \<Rightarrow> binding option) \<Rightarrow> sales_report run" where
  "run_report size_of globals =
     (case globals ''df'' of
        Some (BFrame df) \<Rightarrow> sales_analysis_excel_report size_of df
      | Some (BStr s) \<Rightarrow> lift (Inl TypeError)
      | None \<Rightarrow> lift (Inl NameError))"


subsection \<open>Output files\<close>

text \<open>A run is completed when no statement raised. The file names in the scripts' texts:\<close>

definition completed :: "'a run \<Rightarrow> bool" where
  "completed r = (case outcome r of Inl e \<Rightarrow> False | Inr x \<Rightarrow> True)"

definition charts_outputs :: "string list" where
  "charts_outputs = [''chart_line_sales.png'', ''chart_bar_orders.png'', ''chart_dual_axis.png'',
     ''chart_pie_customers.png'', ''chart_comparison.png'', ''chart_heatmap.png'']"

definition pdf_outputs :: "string list" where
  "pdf_outputs = [''chart_daily_sales.png'', ''chart_daily_orders.png'', ''chart_aov_trend.png'',
     ''november_kpi_report.pdf'']"

definition excel_outputs :: "string list" where
  "excel_outputs = [''november_2025_report.xlsx'']"

definition sales_outputs :: "string list" where
  "sales_outputs = [''sales_analysis_report.xlsx'']"


text \<open>A second table of orders for worked examples: the two lines of day 1.\<close>

definition day1_orders :: dataframe where
  "day1_orders = three_orders\<lparr>df_rows := [df_rows three_orders ! 0, df_rows three_orders ! 2]\<rparr>"




fun last_three :: "pyval \<Rightarrow> pyval" where
  "last_three (PStr s) = PStr (drop (length s - 3) s)"
| "last_three v = PNaN"


text \<open>
  For worked examples: the table of two SKUs as pandas reads it from a CSV file in which
  the 7-day units of the first SKU are blank. The column then holds floats: NaN and 5.0.
\<close>

definition gap_skus :: dataframe where
  "gap_skus = two_skus\<lparr>df_rows :=
     [(df_rows two_skus ! 0)(''7D Units'' := PNaN),
      (df_rows two_skus ! 1)(''7D Units'' := PFloat 5)]\<rparr>"



text \<open>
  For worked examples: a directory that holds one CSV file, \<open>skus.csv\<close>, with the table of
  two SKUs, and the text of the report script.
\<close>

definition example_read_csv :: "string \<Rightarrow> string \<Rightarrow> error + dataframe" where
  "example_read_csv cwd path = (if path = ''skus.csv'' then Inr two_skus else Inl FileNotFoundError)"

definition example_read_text :: "string \<Rightarrow> string \<Rightarrow> error + string" where
  "example_read_text cwd path =
     (if path = ''sales_analysis_excel_report.py'' then Inr ''# report'' else Inl FileNotFoundError)"


section \<open>Properties of the colour conversion\<close>

lemma hex_digit_less: "hex_digit c = Some d \<Longrightarrow> d < 16"
  by (auto simp: hex_digit_def Let_def split: if_splits)

lemma hex_digit_hash [simp]: "hex_digit CHR ''#'' = None"
  by (simp add: hex_digit_def)

lemma hex_digit_not_hash: "hex_digit c \<noteq> None \<Longrightarrow> c \<noteq> CHR ''#''"
  by auto

lemma py_int16_pair:
  assumes "hex_digit c \<noteq> None" "hex_digit d \<noteq> None"
  shows "py_int16 [c, d] = Inr (int (pair_value c d))"
  using assms by (auto simp: py_int16_def pair_value_def)

lemma pair_value_le:
  assumes "hex_digit c \<noteq> None" "hex_digit d \<noteq> None"
  shows "pair_value c d \<le> 255"
proof -
  from assms obtain x y where xy: "hex_digit c = Some x" "hex_digit d = Some y" by auto
  then have "x < 16" "y < 16" by (auto dest: hex_digit_less)
  with xy show ?thesis by (simp add: pair_value_def)
qed

lemma hex_to_rgb_six:
  assumes "\<forall>c\<in>set [a, b, c, d, e, f]. hex_digit c \<noteq> None"
  shows "hex_to_rgb [a, b, c, d, e, f] =
           Inr (real (pair_value a b) / 255, real (pair_value c d) / 255, real (pair_value e f) / 255)"
proof -
  have "a \<noteq> CHR ''#''" using assms by auto
  then have "lstrip_hash [a, b, c, d, e, f] = [a, b, c, d, e, f]"
    by (simp add: lstrip_hash_def)
  then show ?thesis using assms
    by (simp add: hex_to_rgb_def slice_def py_int16_pair)
qed

lemma hex_to_rgb_hash:
  assumes "hex_digit a \<noteq> None"
  shows "hex_to_rgb (CHR ''#'' # a # s) = hex_to_rgb (a # s)"
proof -
  have "a \<noteq> CHR ''#''" using assms by auto
  then show ?thesis by (simp add: hex_to_rgb_def lstrip_hash_def)
qed

text \<open>
  Claim C9. For a colour string \<open>RRGGBB\<close> or \<open>#RRGGBB\<close> of six hex digits,
  \<open>hex_to_rgb\<close> returns the three digit pairs, each divided by 255, and every component
  lies between 0 and 1.
\<close>

theorem hex_to_rgb_components:
  assumes "length s = 6" and "\<forall>c\<in>set s. hex_digit c \<noteq> None"
    and "h = s \<or> h = CHR ''#'' # s"
  shows "hex_to_rgb h = Inr (real (pair_value (s ! 0) (s ! 1)) / 255,
                             real (pair_value (s ! 2) (s ! 3)) / 255,
                             real (pair_value (s ! 4) (s ! 5)) / 255)
         \<and> 0 \<le> real (pair_value (s ! 0) (s ! 1)) / 255 \<and> real (pair_value (s ! 0) (s ! 1)) / 255 \<le> 1
         \<and> 0 \<le> real (pair_value (s ! 2) (s ! 3)) / 255 \<and> real (pair_value (s ! 2) (s ! 3)) / 255 \<le> 1
         \<and> 0 \<le> real (pair_value (s ! 4) (s ! 5)) / 255 \<and> real (pair_value (s ! 4) (s ! 5)) / 255 \<le> 1"
proof -
  from assms(1) obtain a b c d e f where s: "s = [a, b, c, d, e, f]"
    by (auto simp: length_Suc_conv eval_nat_numeral)
  have dig: "\<forall>x\<in>set [a, b, c, d, e, f]. hex_digit x \<noteq> None"
    using assms(2) s by simp
  have six: "hex_to_rgb s =
      Inr (real (pair_value a b) / 255, real (pair_value c d) / 255, real (pair_value e f) / 255)"
    unfolding s by (rule hex_to_rgb_six [OF dig])
  have "hex_to_rgb (CHR ''#'' # s) = hex_to_rgb s"
    unfolding s using dig by (intro hex_to_rgb_hash) simp
  with assms(3) six have res: "hex_to_rgb h =
      Inr (real (pair_value a b) / 255, real (pair_value c d) / 255, real (pair_value e f) / 255)"
    by auto
  have "pair_value a b \<le> 255" "pair_value c d \<le> 255" "pair_value e f \<le> 255"
    using dig by (auto intro: pair_value_le)
  then show ?thesis using res s by simp
qed

theorem hex_to_rgb_components_witness:
  "hex_to_rgb ''#822F23'' = Inr (130 / 255, 47 / 255, 35 / 255)
   \<and> hex_to_rgb ''822F23'' = Inr (130 / 255, 47 / 255, 35 / 255)"
proof -
  have d: "\<forall>c\<in>set ''822F23''. hex_digit c \<noteq> None"
    by (simp add: hex_digit_def)
  have v: "pair_value CHR ''8'' CHR ''2'' = 130" "pair_value CHR ''2'' CHR ''F'' = 47"
    "pair_value CHR ''2'' CHR ''3'' = 35"
    by (simp_all add: pair_value_def hex_digit_def)
  have 1: "hex_to_rgb ''#822F23'' = Inr (130 / 255, 47 / 255, 35 / 255)"
    using hex_to_rgb_components [of "''822F23''" "''#822F23''", OF _ d] by (simp add: v)
  have 2: "hex_to_rgb ''822F23'' = Inr (130 / 255, 47 / 255, 35 / 255)"
    using hex_to_rgb_components [of "''822F23''" "''822F23''", OF _ d] by (simp add: v)
  from 1 2 show ?thesis by simp
qed

section \<open>Properties of \<open>auto_fit_columns\<close>\<close>

lemma adjusted_width_le: "adjusted_width m lo hi \<le> hi"
  by (simp add: adjusted_width_def)

lemma adjusted_width_ge: "lo \<le> hi \<Longrightarrow> lo \<le> adjusted_width m lo hi"
  by (simp add: adjusted_width_def)

lemma fit_cell_width: "column_width (snd (fit_cell str c r p)) = column_width (snd p)"
  by (cases p) (simp add: fit_cell_def touch_def Let_def)

lemma fold_fit_cell_width:
  "column_width (snd (fold (fit_cell str c) rs p)) = column_width (snd p)"
  by (induction rs arbitrary: p) (simp_all add: fit_cell_width)

lemma fit_column_width:
  "\<exists>m. column_width (fit_column str lo hi c ws) = (column_width ws)(c \<mapsto> adjusted_width m lo hi)"
proof -
  obtain m ws' where f: "fold (fit_cell str c) [1..<max_row ws + 1] (0, ws) = (m, ws')"
    by (cases "fold (fit_cell str c) [1..<max_row ws + 1] (0, ws)")
  have "column_width ws' = column_width ws"
    using fold_fit_cell_width [of str c "[1..<max_row ws + 1]" "(0, ws)"] unfolding f by simp
  then show ?thesis unfolding fit_column_def f by auto
qed

lemma fold_fit_column_width:
  "(c \<in> set cs \<longrightarrow> (\<exists>m. column_width (fold (fit_column str lo hi) cs ws) c = Some (adjusted_width m lo hi)))
   \<and> (c \<notin> set cs \<longrightarrow> column_width (fold (fit_column str lo hi) cs ws) c = column_width ws c)"
proof (induction cs arbitrary: ws rule: rev_induct)
  case Nil
  then show ?case by simp
next
  case (snoc x xs)
  obtain m where m: "column_width (fit_column str lo hi x (fold (fit_column str lo hi) xs ws))
      = (column_width (fold (fit_column str lo hi) xs ws))(x \<mapsto> adjusted_width m lo hi)"
    using fit_column_width by blast
  show ?case using snoc [of ws] by (auto simp: m)
qed

lemma touch_width: "column_width (fold (\<lambda>r w. touch w r c) rows ws) = column_width ws"
  by (induction rows arbitrary: ws) (simp_all add: touch_def)

lemma fit_columns_styled_width:
  assumes "fit_columns_styled str lo hi rows cs ws = Inr ws'"
  shows "(c \<in> set cs \<longrightarrow> (\<exists>m. column_width ws' c = Some (adjusted_width m lo hi)))
   \<and> (c \<notin> set cs \<longrightarrow> column_width ws' c = column_width ws c)"
  using assms
proof (induction cs arbitrary: ws)
  case Nil
  then show ?case by simp
next
  case (Cons x xs)
  let ?ws1 = "fold (\<lambda>r w. touch w r x) rows ws"
  let ?cc = "map (\<lambda>r. get_cell ?ws1 r x) rows"
  let ?ws2 = "?ws1\<lparr>column_width := (column_width ?ws1)
                  (x \<mapsto> adjusted_width (longest str (map obj_value ?cc)) lo hi)\<rparr>"
  from Cons.prems have rec: "fit_columns_styled str lo hi rows xs ?ws2 = Inr ws'"
    by (simp add: Let_def split: cellobj.splits)
  note IH = Cons.IH [OF rec]
  show ?case
  proof (cases "c \<in> set xs")
    case True
    with IH show ?thesis by simp
  next
    case False
    with IH have "column_width ws' c = column_width ?ws2 c" by simp
    then show ?thesis using False by (auto simp: touch_width)
  qed
qed


text \<open>
  Claim C8 (as amended). When \<open>min_width \<le> max_width\<close>, every column width that
  \<open>auto_fit_columns\<close> sets lies between \<open>min_width\<close> and \<open>max_width\<close>, for every
  worksheet and every rendering of the cell contents. The report's version sets the widths
  of the columns 1 to \<open>max_column\<close> and no other; the styled version, when it returns,
  leaves a width as it was or sets it within the bounds.
\<close>

theorem auto_fit_columns_width_bounds:
  assumes "min_width \<le> max_width"
  shows "(\<forall>c. 1 \<le> c \<and> c \<le> max_column ws \<longrightarrow>
            (\<exists>w. column_width (auto_fit_columns str ws min_width max_width) c = Some w
                 \<and> min_width \<le> w \<and> w \<le> max_width))
       \<and> (\<forall>c. \<not> (1 \<le> c \<and> c \<le> max_column ws) \<longrightarrow>
            column_width (auto_fit_columns str ws min_width max_width) c = column_width ws c)
       \<and> (\<forall>ws' c. auto_fit_columns_styled str ws min_width max_width = Inr ws' \<longrightarrow>
            column_width ws' c = column_width ws c
            \<or> (\<exists>w. column_width ws' c = Some w \<and> min_width \<le> w \<and> w \<le> max_width))"
proof (intro conjI allI impI)
  fix c assume c: "1 \<le> c \<and> c \<le> max_column ws"
  then have "c \<in> set [1..<max_column ws + 1]" by auto
  then obtain m where "column_width (auto_fit_columns str ws min_width max_width) c
      = Some (adjusted_width m min_width max_width)"
    unfolding auto_fit_columns_def using fold_fit_column_width by blast
  then show "\<exists>w. column_width (auto_fit_columns str ws min_width max_width) c = Some w
                 \<and> min_width \<le> w \<and> w \<le> max_width"
    using assms by (simp add: adjusted_width_le adjusted_width_ge)
next
  fix c assume "\<not> (1 \<le> c \<and> c \<le> max_column ws)"
  then have "c \<notin> set [1..<max_column ws + 1]" by auto
  then show "column_width (auto_fit_columns str ws min_width max_width) c = column_width ws c"
    unfolding auto_fit_columns_def using fold_fit_column_width by blast
next
  fix ws' c assume r: "auto_fit_columns_styled str ws min_width max_width = Inr ws'"
  show "column_width ws' c = column_width ws c
            \<or> (\<exists>w. column_width ws' c = Some w \<and> min_width \<le> w \<and> w \<le> max_width)"
  proof (cases "last_row ws = 0")
    case True
    with r show ?thesis by (simp add: auto_fit_columns_styled_def)
  next
    case False
    with r have "fit_columns_styled str min_width max_width
             [1..<max_row ws + 1] [1..<max_column ws + 1] ws = Inr ws'"
      by (simp add: auto_fit_columns_styled_def)
    from fit_columns_styled_width [OF this, of c] show ?thesis
      using assms by (auto simp: adjusted_width_le adjusted_width_ge)
  qed
qed

theorem auto_fit_columns_width_bounds_witness:
  "(10::int) \<le> 25
   \<and> (\<exists>w. column_width (auto_fit_columns plain_str title_sheet 10 25) 1 = Some w
          \<and> 10 \<le> w \<and> w \<le> 25)"
proof -
  have h: "(10::int) \<le> 25" by simp
  have "1 \<le> (1::nat) \<and> 1 \<le> max_column title_sheet"
    by (simp add: max_column_def)
  with auto_fit_columns_width_bounds [OF h, of title_sheet plain_str] h
  show ?thesis by blast
qed

text \<open>
  The claim as written has no condition on the two bounds: with \<open>min_width = 30\<close> and
  \<open>max_width = 10\<close> the width of column 1 of an empty sheet is set to 10, below
  \<open>min_width\<close>.
\<close>

theorem auto_fit_columns_inverted_bounds:
  "column_width (auto_fit_columns plain_str new_sheet 30 10) 1 = Some 10
   \<and> \<not> (30 \<le> (10::int))"
  by (simp add: auto_fit_columns_def max_column_def max_row_def new_sheet_def fit_column_def
      fit_cell_def touch_def get_cell_def empty_cell_def adjusted_width_def)

section \<open>Properties of \<open>write_data_table\<close>\<close>

lemma get_cell_put_cell:
  "get_cell (put_cell ws r c x) r' c' = (if r' = r \<and> c' = c then Cell x else get_cell ws r' c')"
  by (simp add: get_cell_def put_cell_def)

lemma write_cell_Inr:
  assumes "write_cell r c f ws = Inr ws'"
  shows "\<exists>x. get_cell ws r c = Cell x \<and> ws' = put_cell ws r c (f x)"
  using assms by (auto simp: write_cell_def split: cellobj.splits)

lemma enumerate_from_Cons: "enumerate_from k (x # xs) = (k, x) # enumerate_from (Suc k) xs"
proof -
  have "[k..<k + length (x # xs)] = k # [Suc k..<Suc k + length xs]"
    by (subst upt_rec) simp
  then show ?thesis unfolding enumerate_from_def by simp
qed

lemma enumerate_from_Nil [simp]: "enumerate_from k [] = []"
  by (simp add: enumerate_from_def)

lemma row_loop:
  assumes "for_each (\<lambda>(ci, cn) ws. if cn \<notin> S then Inl KeyError else write_cell r ci (g cn) ws)
             (enumerate_from k cols) ws = Inr ws'"
  shows "(\<forall>j<length cols. \<exists>x. get_cell ws r (k + j) = Cell x
                              \<and> get_cell ws' r (k + j) = Cell (g (cols ! j) x))
       \<and> (\<forall>r' c'. r' \<noteq> r \<or> c' < k \<or> k + length cols \<le> c' \<longrightarrow> get_cell ws' r' c' = get_cell ws r' c')"
  using assms
proof (induction cols arbitrary: k ws)
  case Nil
  then show ?case by simp
next
  case (Cons cn cols)
  from Cons.prems obtain ws1 where
    w1: "write_cell r k (g cn) ws = Inr ws1" and
    rest: "for_each (\<lambda>(ci, cn) ws. if cn \<notin> S then Inl KeyError else write_cell r ci (g cn) ws)
             (enumerate_from (Suc k) cols) ws1 = Inr ws'"
    by (auto simp: enumerate_from_Cons split: if_splits sum.splits)
  from write_cell_Inr [OF w1] obtain x where
    x: "get_cell ws r k = Cell x" "ws1 = put_cell ws r k (g cn x)" by blast
  note IH = Cons.IH [OF rest]
  have frame: "\<And>r' c'. r' \<noteq> r \<or> c' < Suc k \<or> Suc k + length cols \<le> c'
      \<Longrightarrow> get_cell ws' r' c' = get_cell ws1 r' c'"
    using IH by blast
  show ?case
  proof (intro conjI allI impI)
    fix j assume j: "j < length (cn # cols)"
    show "\<exists>x. get_cell ws r (k + j) = Cell x
           \<and> get_cell ws' r (k + j) = Cell (g ((cn # cols) ! j) x)"
    proof (cases j)
      case 0
      have "get_cell ws' r k = get_cell ws1 r k" by (rule frame) simp
      with x 0 show ?thesis by (simp add: get_cell_put_cell)
    next
      case (Suc j')
      with j have "j' < length cols" by simp
      with IH obtain y where y: "get_cell ws1 r (Suc k + j') = Cell y"
        "get_cell ws' r (Suc k + j') = Cell (g (cols ! j') y)" by blast
      then show ?thesis using x Suc by (simp add: get_cell_put_cell)
    qed
  next
    fix r' c' assume a: "r' \<noteq> r \<or> c' < k \<or> k + length (cn # cols) \<le> c'"
    then have "get_cell ws' r' c' = get_cell ws1 r' c'" by (intro frame) auto
    also have "\<dots> = get_cell ws r' c'" using a x by (auto simp: get_cell_put_cell)
    finally show "get_cell ws' r' c' = get_cell ws r' c'" .
  qed
qed

lemma table_loop:
  assumes "for_each (write_row th df cols) (enumerate_from s rows) ws = Inr ws'"
  shows "(\<forall>i<length rows. \<forall>j<length cols. \<exists>x. get_cell ws (s + i) (1 + j) = Cell x
            \<and> get_cell ws' (s + i) (1 + j)
                = Cell (data_cell th (s + i) (cols ! j) ((rows ! i) (cols ! j)) x))
       \<and> (\<forall>r' c'. r' < s \<or> s + length rows \<le> r' \<or> c' < 1 \<or> 1 + length cols \<le> c'
             \<longrightarrow> get_cell ws' r' c' = get_cell ws r' c')"
  using assms
proof (induction rows arbitrary: s ws)
  case Nil
  then show ?case by simp
next
  case (Cons row rows)
  from Cons.prems obtain ws1 where
    w1: "write_row th df cols (s, row) ws = Inr ws1" and
    rest: "for_each (write_row th df cols) (enumerate_from (Suc s) rows) ws1 = Inr ws'"
    by (auto simp: enumerate_from_Cons split: sum.splits)
  from w1 have "for_each (\<lambda>(ci, cn) ws. if cn \<notin> set (df_columns df) then Inl KeyError
        else write_cell s ci (data_cell th s cn (row cn)) ws) (enumerate_from 1 cols) ws = Inr ws1"
    by (simp add: write_row_def)
  note R = row_loop [where g = "\<lambda>cn. data_cell th s cn (row cn)", OF this]
  note IH = Cons.IH [OF rest]
  show ?case
  proof (intro conjI allI impI)
    fix i j assume i: "i < length (row # rows)" and j: "j < length cols"
    show "\<exists>x. get_cell ws (s + i) (1 + j) = Cell x
            \<and> get_cell ws' (s + i) (1 + j)
                = Cell (data_cell th (s + i) (cols ! j) (((row # rows) ! i) (cols ! j)) x)"
    proof (cases i)
      case 0
      from R j obtain x where x: "get_cell ws s (1 + j) = Cell x"
        "get_cell ws1 s (1 + j) = Cell (data_cell th s (cols ! j) (row (cols ! j)) x)" by blast
      have "get_cell ws' s (1 + j) = get_cell ws1 s (1 + j)" using IH by simp
      with x 0 show ?thesis by simp
    next
      case (Suc i')
      with i have "i' < length rows" by simp
      with IH j obtain y where y: "get_cell ws1 (Suc s + i') (1 + j) = Cell y"
        "get_cell ws' (Suc s + i') (1 + j)
           = Cell (data_cell th (Suc s + i') (cols ! j) ((rows ! i') (cols ! j)) y)" by blast
      have "get_cell ws1 (Suc s + i') (1 + j) = get_cell ws (Suc s + i') (1 + j)" using R by simp
      with y have "get_cell ws (Suc s + i') (1 + j) = Cell y" by simp
      with y(2) Suc show ?thesis by simp
    qed
  next
    fix r' c' assume a: "r' < s \<or> s + length (row # rows) \<le> r' \<or> c' < 1 \<or> 1 + length cols \<le> c'"
    then have "get_cell ws' r' c' = get_cell ws1 r' c'" using IH by auto
    also have "\<dots> = get_cell ws r' c'" using a R by auto
    finally show "get_cell ws' r' c' = get_cell ws r' c'" .
  qed
qed

lemma header_loop:
  assumes "for_each (\<lambda>(col_idx, col_name). write_cell r col_idx (g col_name))
             (enumerate_from k cols) ws = Inr ws'"
  shows "\<forall>r' c'. r' \<noteq> r \<longrightarrow> get_cell ws' r' c' = get_cell ws r' c'"
  using assms
proof (induction cols arbitrary: k ws)
  case Nil
  then show ?case by simp
next
  case (Cons cn cols)
  from Cons.prems obtain ws1 where
    w1: "write_cell r k (g cn) ws = Inr ws1" and
    rest: "for_each (\<lambda>(col_idx, col_name). write_cell r col_idx (g col_name))
             (enumerate_from (Suc k) cols) ws1 = Inr ws'"
    by (auto simp: enumerate_from_Cons split: sum.splits)
  from write_cell_Inr [OF w1] Cons.IH [OF rest] show ?case
    by (auto simp: get_cell_put_cell)
qed

lemma iterrows_length [simp]: "length (iterrows df) = length (df_rows df)"
  by (simp add: iterrows_def)

lemma iterrows_nth:
  "i < length (df_rows df) \<Longrightarrow> (iterrows df ! i) c = handed (frame_dtype_of df) ((df_rows df ! i) c)"
  by (simp add: iterrows_def)

lemma write_data_table_cells:
  assumes "write_data_table th ws df start_row None = Inr (ws', n)"
    and "i < length (df_rows df)" and "j < length (df_columns df)"
  shows "\<exists>x. get_cell ws (start_row + 1 + i) (1 + j) = Cell x
            \<and> get_cell ws' (start_row + 1 + i) (1 + j)
                = Cell (data_cell th (start_row + 1 + i) (df_columns df ! j)
                          (handed (frame_dtype_of df) ((df_rows df ! i) (df_columns df ! j))) x)"
proof -
  from assms(1) obtain ws1 where
    h: "for_each (\<lambda>(col_idx, col_name). write_cell start_row col_idx (header_cell th col_name))
             (enumerate_from 1 (df_columns df)) ws = Inr ws1" and
    t: "for_each (write_row th df (df_columns df)) (enumerate_from (start_row + 1) (iterrows df)) ws1
          = Inr ws'"
    by (auto simp: write_data_table_def Let_def split: sum.splits)
  have i': "i < length (iterrows df)" using assms(2) by simp
  from table_loop [OF t] i' assms(3) obtain x where
    x: "get_cell ws1 (start_row + 1 + i) (1 + j) = Cell x"
       "get_cell ws' (start_row + 1 + i) (1 + j)
                = Cell (data_cell th (start_row + 1 + i) (df_columns df ! j)
                          ((iterrows df ! i) (df_columns df ! j)) x)" by blast
  have "get_cell ws1 (start_row + 1 + i) (1 + j) = get_cell ws (start_row + 1 + i) (1 + j)"
    using header_loop [OF h] by simp
  with x have "get_cell ws (start_row + 1 + i) (1 + j) = Cell x" by simp
  with x(2) show ?thesis by (simp add: iterrows_nth [OF assms(2)])
qed







lemma isna_handed [simp]: "isna (handed dt v) = isna v"
  by (cases dt; cases v) simp_all

lemma num_of_handed [simp]: "num_of (handed dt v) = num_of v"
  by (cases dt; cases v) simp_all

lemma is_text_handed [simp]: "is_text (handed dt v) = is_text v"
  by (cases dt; cases v) (simp_all add: is_text_def)

lemma write_cell_ok:
  assumes "\<forall>r c. get_cell ws r c \<noteq> MergedCell"
  shows "\<exists>ws'. write_cell r c f ws = Inr ws' \<and> (\<forall>r c. get_cell ws' r c \<noteq> MergedCell)"
proof -
  from assms obtain x where "get_cell ws r c = Cell x" by (cases "get_cell ws r c") auto
  then show ?thesis using assms by (simp add: write_cell_def get_cell_put_cell)
qed

lemma row_loop_ok:
  assumes "\<forall>r c. get_cell ws r c \<noteq> MergedCell" and "set cols \<subseteq> S"
  shows "\<exists>ws'. for_each (\<lambda>(ci, cn) ws. if cn \<notin> S then Inl KeyError else write_cell r ci (g cn) ws)
             (enumerate_from k cols) ws = Inr ws' \<and> (\<forall>r c. get_cell ws' r c \<noteq> MergedCell)"
  using assms
proof (induction cols arbitrary: k ws)
  case Nil
  then show ?case by simp
next
  case (Cons cn cols)
  from write_cell_ok [OF Cons.prems(1)] obtain ws1 where
    w: "write_cell r k (g cn) ws = Inr ws1" "\<forall>r c. get_cell ws1 r c \<noteq> MergedCell" by blast
  have sub: "set cols \<subseteq> S" and cn: "cn \<in> S" using Cons.prems(2) by auto
  from Cons.IH [OF w(2) sub, of "Suc k"] obtain ws' where
    "for_each (\<lambda>(ci, cn) ws. if cn \<notin> S then Inl KeyError else write_cell r ci (g cn) ws)
       (enumerate_from (Suc k) cols) ws1 = Inr ws'" "\<forall>r c. get_cell ws' r c \<noteq> MergedCell"
    by blast
  with w cn show ?case by (simp add: enumerate_from_Cons)
qed

lemma header_loop_ok:
  assumes "\<forall>r c. get_cell ws r c \<noteq> MergedCell"
  shows "\<exists>ws'. for_each (\<lambda>(col_idx, col_name). write_cell r col_idx (g col_name))
             (enumerate_from k cols) ws = Inr ws' \<and> (\<forall>r c. get_cell ws' r c \<noteq> MergedCell)"
  using assms
proof (induction cols arbitrary: k ws)
  case Nil
  then show ?case by simp
next
  case (Cons cn cols)
  from write_cell_ok [OF Cons.prems(1)] obtain ws1 where
    w: "write_cell r k (g cn) ws = Inr ws1" "\<forall>r c. get_cell ws1 r c \<noteq> MergedCell" by blast
  from Cons.IH [OF w(2), of "Suc k"] w(1) show ?case by (simp add: enumerate_from_Cons)
qed

lemma table_loop_ok:
  assumes "\<forall>r c. get_cell ws r c \<noteq> MergedCell" and "set cols \<subseteq> set (df_columns df)"
  shows "\<exists>ws'. for_each (write_row th df cols) (enumerate_from s rows) ws = Inr ws'
           \<and> (\<forall>r c. get_cell ws' r c \<noteq> MergedCell)"
  using assms
proof (induction rows arbitrary: s ws)
  case Nil
  then show ?case by simp
next
  case (Cons row rows)
  from row_loop_ok [OF Cons.prems, of s "\<lambda>cn. data_cell th s cn (row cn)" 1] obtain ws1 where
    w: "write_row th df cols (s, row) ws = Inr ws1" "\<forall>r c. get_cell ws1 r c \<noteq> MergedCell"
    by (auto simp: write_row_def)
  from Cons.IH [OF w(2) Cons.prems(2), of "Suc s"] w(1) show ?case
    by (simp add: enumerate_from_Cons)
qed

lemma write_data_table_ok:
  assumes "\<forall>r c. get_cell ws r c \<noteq> MergedCell"
  shows "\<exists>ws'. write_data_table th ws df start_row None
             = Inr (ws', start_row + length (df_rows df) + 1)
           \<and> (\<forall>r c. get_cell ws' r c \<noteq> MergedCell)"
proof -
  from header_loop_ok [OF assms] obtain ws1 where
    h: "for_each (\<lambda>(col_idx, col_name). write_cell start_row col_idx (header_cell th col_name))
             (enumerate_from 1 (df_columns df)) ws = Inr ws1"
       "\<forall>r c. get_cell ws1 r c \<noteq> MergedCell" by blast
  from table_loop_ok [OF h(2), of "df_columns df" df th "start_row + 1" "iterrows df"] obtain ws' where
    t: "for_each (write_row th df (df_columns df)) (enumerate_from (start_row + 1) (iterrows df)) ws1
          = Inr ws'"
       "\<forall>r c. get_cell ws' r c \<noteq> MergedCell" by auto
  from h(1) t show ?thesis by (simp add: write_data_table_def)
qed

lemma new_sheet_no_merged: "\<forall>r c. get_cell new_sheet r c \<noteq> MergedCell"
  by (simp add: get_cell_def new_sheet_def)





section \<open>Properties of the period tables\<close>

lemma before_total: "before a b \<or> before b a"
  by (cases a; cases b) auto

lemma before_trans: "before a b \<Longrightarrow> before b c \<Longrightarrow> before a c"
  by (cases a; cases b; cases c) auto

lemma set_insert_desc: "set (insert_desc key x xs) = insert x (set xs)"
  by (induction xs) auto

lemma length_insert_desc: "length (insert_desc key x xs) = Suc (length xs)"
  by (induction xs) auto

lemma sorted_insert_desc:
  assumes "sorted_wrt (\<lambda>a b. before (key a) (key b)) xs"
  shows "sorted_wrt (\<lambda>a b. before (key a) (key b)) (insert_desc key x xs)"
  using assms
proof (induction xs)
  case Nil
  then show ?case by simp
next
  case (Cons y ys)
  show ?case
  proof (cases "before (key x) (key y)")
    case True
    with Cons.prems show ?thesis by (auto intro: before_trans)
  next
    case False
    then have "before (key y) (key x)" using before_total by blast
    with False Cons show ?thesis by (auto simp: set_insert_desc)
  qed
qed

lemma sorted_sort_desc: "sorted_wrt (\<lambda>a b. before (key a) (key b)) (sort_desc key xs)"
  unfolding sort_desc_def by (induction xs) (simp_all add: sorted_insert_desc)

lemma length_sort_desc: "length (sort_desc key xs) = length xs"
  unfolding sort_desc_def by (induction xs) (simp_all add: length_insert_desc)

lemma set_sort_desc: "set (sort_desc key xs) = set xs"
  unfolding sort_desc_def by (induction xs) (simp_all add: set_insert_desc)

lemma sort_desc_adjacent:
  assumes "i + 1 < length xs"
  shows "before (key (sort_desc key xs ! i)) (key (sort_desc key xs ! (i + 1)))"
proof -
  have "i < i + 1" "i + 1 < length (sort_desc key xs)" using assms by (simp_all add: length_sort_desc)
  from sorted_wrt_nth_less [OF sorted_sort_desc this] show ?thesis .
qed

lemma data_cell_value: "num_of v \<noteq> None \<Longrightarrow> cell_value (data_cell th r col v c) = v"
  by (cases v) (simp_all add: data_cell_def style_cell_def Let_def)

lemma data_cell_value_missing: "isna v \<Longrightarrow> cell_value (data_cell th r col v c) = PStr ''''"
  by (simp add: data_cell_def)

lemma not_text_missing: "\<not> is_text v \<Longrightarrow> num_of v = None \<Longrightarrow> isna v"
  by (cases v) (simp_all add: is_text_def)

lemma period_table_rows:
  assumes "period_table df p = Inr t"
  shows "df_columns t = [''Size'', ''Units'', ''Gross Sales'', ''Net Sales'', ''Avg Price'']"
    and "length (df_rows t) = length (df_rows df)"
    and "k < length (df_rows df) \<Longrightarrow>
           (df_rows t ! k) ''Units''
             = (sort_desc (\<lambda>row. num_of (row (p @ '' Units''))) (df_rows df) ! k) (p @ '' Units'')"
    and "\<not> list_ex (\<lambda>row. is_text (row (p @ '' Units''))) (df_rows df)"
proof -
  let ?cols = "[''Size'', p @ '' Units'', p @ '' Sales'', p @ '' Net Sales'', p @ '' Avg Price'']"
  let ?names = "[''Size'', ''Units'', ''Gross Sales'', ''Net Sales'', ''Avg Price'']"
  let ?sorted = "sort_desc (\<lambda>row. num_of (row (p @ '' Units''))) (df_rows df)"
  from assms have t: "rename_columns (df\<lparr>df_columns := ?cols, df_rows := ?sorted\<rparr>) ?names = Inr t"
    by (auto simp: period_table_def select_columns_def sort_values_def split: sum.splits if_splits)
  then have t': "t = \<lparr>df_columns = ?names,
                df_rows = map (\<lambda>row name. case map_of (zip ?names ?cols) name of
                                             None \<Rightarrow> PNone
                                           | Some old \<Rightarrow> row old) ?sorted\<rparr>"
    by (simp add: rename_columns_def)
  show "df_columns t = ?names" by (simp add: t')
  show "length (df_rows t) = length (df_rows df)" by (simp add: t' length_sort_desc)
  from assms show "\<not> list_ex (\<lambda>row. is_text (row (p @ '' Units''))) (df_rows df)"
    by (auto simp: period_table_def select_columns_def sort_values_def split: sum.splits if_splits)
  assume "k < length (df_rows df)"
  then have "k < length ?sorted" by (simp add: length_sort_desc)
  then show "(df_rows t ! k) ''Units'' = (?sorted ! k) (p @ '' Units'')"
    by (simp add: t')
qed

lemma period_table_no_text:
  assumes "{''Size'', p @ '' Units'', p @ '' Sales'', p @ '' Net Sales'', p @ '' Avg Price''}
             \<subseteq> set (df_columns df)"
    and "\<not> list_ex (\<lambda>row. is_text (row (p @ '' Units''))) (df_rows df)"
  shows "\<exists>t. period_table df p = Inr t"
  using assms
  by (simp add: period_table_def select_columns_def sort_values_def rename_columns_def)

text \<open>
  The units that a period table writes in its \<open>k\<close>-th data row: those of the \<open>k\<close>-th row in
  the sorted order, as a number when they are one and as the empty string when missing.
\<close>

lemma period_cell_value:
  assumes "write_period_table ws df p = Inr (ws', n)" and "k < length (df_rows df)"
    and "u = (sort_desc (\<lambda>row. num_of (row (p @ '' Units''))) (df_rows df) ! k) (p @ '' Units'')"
  shows "num_of u \<noteq> None \<Longrightarrow> num_of (obj_value (get_cell ws' (4 + k) 2)) = num_of u"
    and "num_of u = None \<Longrightarrow> obj_value (get_cell ws' (4 + k) 2) = PStr ''''"
proof -
  let ?key = "\<lambda>row. num_of (row (p @ '' Units''))"
  let ?sorted = "sort_desc ?key (df_rows df)"
  from assms(1) obtain t where t: "period_table df p = Inr t"
    and w: "write_data_table sales_theme ws t 3 None = Inr (ws', n)"
    by (auto simp: write_period_table_def split: sum.splits)
  note cols = period_table_rows(1) [OF t] and len = period_table_rows(2) [OF t]
    and units = period_table_rows(3) [OF t] and no_text = period_table_rows(4) [OF t]
  have j: "1 < length (df_columns t)" by (simp add: cols)
  have c': "df_columns t ! Suc 0 = ''Units''" by (simp add: cols)
  have k': "k < length (df_rows t)" using assms(2) by (simp add: len)
  let ?v = "handed (frame_dtype_of t) u"
  from write_data_table_cells [OF w k' j] obtain x where
    "get_cell ws' (3 + 1 + k) (1 + 1)
       = Cell (data_cell sales_theme (3 + 1 + k) (df_columns t ! 1)
                 (handed (frame_dtype_of t) ((df_rows t ! k) (df_columns t ! 1))) x)" by blast
  then have cell: "get_cell ws' (4 + k) 2 = Cell (data_cell sales_theme (4 + k) ''Units'' ?v x)"
    by (simp add: c' units [OF assms(2)] assms(3) numeral_2_eq_2)
  show "num_of u \<noteq> None \<Longrightarrow> num_of (obj_value (get_cell ws' (4 + k) 2)) = num_of u"
  proof -
    assume "num_of u \<noteq> None"
    then have "num_of ?v \<noteq> None" by simp
    from data_cell_value [OF this] cell show ?thesis by simp
  qed
  show "num_of u = None \<Longrightarrow> obj_value (get_cell ws' (4 + k) 2) = PStr ''''"
  proof -
    assume none: "num_of u = None"
    have "?sorted ! k \<in> set ?sorted" using assms(2) by (simp add: length_sort_desc)
    then have "?sorted ! k \<in> set (df_rows df)" by (simp add: set_sort_desc)
    with no_text have "\<not> is_text u" by (auto simp: list_ex_iff assms(3))
    from not_text_missing [OF this none] have "isna ?v" by simp
    from data_cell_value_missing [OF this] cell show ?thesis by simp
  qed
qed

lemma period_cells_adjacent:
  assumes "write_period_table ws df p = Inr (ws', n)"
    and "i + 1 < length (df_rows df)"
  shows "(\<exists>x y. num_of (obj_value (get_cell ws' (4 + i) 2)) = Some x
             \<and> num_of (obj_value (get_cell ws' (4 + (i + 1)) 2)) = Some y \<and> y \<le> x)
       \<or> (\<exists>x. num_of (obj_value (get_cell ws' (4 + i) 2)) = Some x
             \<and> obj_value (get_cell ws' (4 + (i + 1)) 2) = PStr '''')
       \<or> (obj_value (get_cell ws' (4 + i) 2) = PStr ''''
             \<and> obj_value (get_cell ws' (4 + (i + 1)) 2) = PStr '''')"
proof -
  let ?key = "\<lambda>row. num_of (row (p @ '' Units''))"
  let ?sorted = "sort_desc ?key (df_rows df)"
  let ?u = "(?sorted ! i) (p @ '' Units'')"
  let ?u' = "(?sorted ! (i + 1)) (p @ '' Units'')"
  have i0: "i < length (df_rows df)" using assms(2) by simp
  note a = period_cell_value [OF assms(1) i0 refl]
  note b = period_cell_value [OF assms(1) assms(2) refl]
  from sort_desc_adjacent [OF assms(2), of ?key] have ord: "before (num_of ?u) (num_of ?u')" .
  show ?thesis
  proof (cases "num_of ?u")
    case None
    with ord have "num_of ?u' = None" by (cases "num_of ?u'") simp_all
    with None a(2) b(2) show ?thesis by simp
  next
    case (Some x)
    show ?thesis
    proof (cases "num_of ?u'")
      case None
      with Some a(1) b(2) show ?thesis by simp
    next
      case (Some y)
      with \<open>num_of ?u = Some x\<close> ord have "y \<le> x" by simp
      with Some \<open>num_of ?u = Some x\<close> a(1) b(1) show ?thesis by simp
    qed
  qed
qed

lemma two_skus_units:
  "\<not> list_ex (\<lambda>row. is_text (row (''7D'' @ '' Units''))) (df_rows two_skus)"
  by (simp add: two_skus_def row_of_def is_text_def)

lemma two_skus_period_columns:
  "{''Size'', ''7D'' @ '' Units'', ''7D'' @ '' Sales'', ''7D'' @ '' Net Sales'',
    ''7D'' @ '' Avg Price''} \<subseteq> set (df_columns two_skus)"
  by (simp add: two_skus_def sku_columns_def)

lemma write_period_table_ok:
  assumes "{''Size'', p @ '' Units'', p @ '' Sales'', p @ '' Net Sales'', p @ '' Avg Price''}
             \<subseteq> set (df_columns df)"
    and "\<not> list_ex (\<lambda>row. is_text (row (p @ '' Units''))) (df_rows df)"
  shows "\<exists>ws' n. write_period_table new_sheet df p = Inr (ws', n)"
proof -
  from period_table_no_text [OF assms] obtain t where t: "period_table df p = Inr t" by blast
  from write_data_table_ok [OF new_sheet_no_merged, of sales_theme t 3] obtain ws' where
    "write_data_table sales_theme new_sheet t 3 None = Inr (ws', 3 + length (df_rows t) + 1)"
    by blast
  with t show ?thesis by (simp add: write_period_table_def)
qed

lemma sort_desc_two_skus:
  "sort_desc (\<lambda>row. num_of (row (''7D'' @ '' Units''))) (df_rows two_skus)
     = [df_rows two_skus ! 1, df_rows two_skus ! 0]"
  by (simp add: sort_desc_def two_skus_def row_of_def)

lemma sort_desc_gap_skus:
  "sort_desc (\<lambda>row. num_of (row (''7D'' @ '' Units''))) (df_rows gap_skus)
     = [(df_rows two_skus ! 1)(''7D Units'' := PFloat 5),
        (df_rows two_skus ! 0)(''7D Units'' := PNaN)]"
  by (simp add: sort_desc_def gap_skus_def)

text \<open>
  Claim C10 (as amended). In a period sheet (prefix \<open>7D\<close>, \<open>30D\<close> or \<open>90D\<close>) the data rows
  are written from row 4 on, with the period's units in column 2. Whenever the table is
  written, the units of any two adjacent written rows are in one of three relations: both
  are numbers and the later is not greater than the earlier; or the earlier is a number
  and the later, missing in the input, is written as the empty string; or both are written
  as the empty string. So the rows are in non-increasing order of their units with the
  rows without units last. (The statements that follow in the script write to the columns
  9 to 12 and below the table only.)
\<close>

theorem period_rows_descending:
  assumes "write_period_table ws df p = Inr (ws', n)"
    and "i + 1 < length (df_rows df)"
    and "a = obj_value (get_cell ws' (4 + i) 2)"
    and "b = obj_value (get_cell ws' (4 + (i + 1)) 2)"
  shows "(\<exists>x y. num_of a = Some x \<and> num_of b = Some y \<and> y \<le> x)
       \<or> (\<exists>x. num_of a = Some x \<and> b = PStr '''')
       \<or> (a = PStr '''' \<and> b = PStr '''')"
  using period_cells_adjacent [OF assms(1,2)] assms(3,4) by simp

theorem period_rows_descending_witness:
  "\<exists>ws' n. write_period_table new_sheet two_skus ''7D'' = Inr (ws', n)
       \<and> 0 + 1 < length (df_rows two_skus)
       \<and> num_of (obj_value (get_cell ws' 4 2)) = Some 5
       \<and> num_of (obj_value (get_cell ws' 5 2)) = Some 2"
proof -
  from write_period_table_ok [OF two_skus_period_columns two_skus_units] obtain ws' n where
    r: "write_period_table new_sheet two_skus ''7D'' = Inr (ws', n)" by blast
  have l: "0 + 1 < length (df_rows two_skus)" and l0: "0 < length (df_rows two_skus)"
    by (simp_all add: two_skus_def)
  have u0: "num_of ((sort_desc (\<lambda>row. num_of (row (''7D'' @ '' Units''))) (df_rows two_skus) ! 0)
                      (''7D'' @ '' Units'')) = Some 5"
    and u1: "num_of ((sort_desc (\<lambda>row. num_of (row (''7D'' @ '' Units''))) (df_rows two_skus) ! (0 + 1))
                      (''7D'' @ '' Units'')) = Some 2"
    unfolding sort_desc_two_skus by (simp_all add: two_skus_def row_of_def)
  from period_cell_value(1) [OF r l0 refl] u0
  have a: "num_of (obj_value (get_cell ws' (4 + 0) 2)) = Some 5" by simp
  from period_cell_value(1) [OF r l refl] u1
  have b: "num_of (obj_value (get_cell ws' (4 + (0 + 1)) 2)) = Some 2" by simp
  from period_rows_descending [OF r l refl refl] a b
  have "num_of (obj_value (get_cell ws' (4 + 0) 2)) = Some 5
      \<and> num_of (obj_value (get_cell ws' (4 + (0 + 1)) 2)) = Some 2" by simp
  then have "num_of (obj_value (get_cell ws' 4 2)) = Some 5
      \<and> num_of (obj_value (get_cell ws' 5 2)) = Some 2" by simp
  with r l show ?thesis by blast
qed

text \<open>
  The units of two adjacent written rows need not both be numbers. When the 7-day units of
  one SKU are missing, the row of the other SKU is written first, with its units 5.0, and
  the row without units after it, with the empty string in the units' place: the later
  value is not a number that the earlier could be greater than or equal to.
\<close>

theorem period_rows_missing_units:
  "num_of (obj_value (get_cell (fst (projr (write_period_table new_sheet gap_skus ''7D''))) 4 2))
     = Some 5
   \<and> obj_value (get_cell (fst (projr (write_period_table new_sheet gap_skus ''7D''))) 5 2) = PStr ''''"
proof -
  have cols: "{''Size'', ''7D'' @ '' Units'', ''7D'' @ '' Sales'', ''7D'' @ '' Net Sales'',
               ''7D'' @ '' Avg Price''} \<subseteq> set (df_columns gap_skus)"
    by (simp add: gap_skus_def two_skus_def sku_columns_def)
  have no_text: "\<not> list_ex (\<lambda>row. is_text (row (''7D'' @ '' Units''))) (df_rows gap_skus)"
    by (simp add: gap_skus_def is_text_def)
  from write_period_table_ok [OF cols no_text] obtain ws' n where
    r: "write_period_table new_sheet gap_skus ''7D'' = Inr (ws', n)" by blast
  have l: "0 + 1 < length (df_rows gap_skus)" and l0: "0 < length (df_rows gap_skus)"
    by (simp_all add: gap_skus_def)
  have u0: "(sort_desc (\<lambda>row. num_of (row (''7D'' @ '' Units''))) (df_rows gap_skus) ! 0)
              (''7D'' @ '' Units'') = PFloat 5"
    and u1: "(sort_desc (\<lambda>row. num_of (row (''7D'' @ '' Units''))) (df_rows gap_skus) ! (0 + 1))
              (''7D'' @ '' Units'') = PNaN"
    unfolding sort_desc_gap_skus by simp_all
  from period_cell_value(2) [OF r l refl] u1
  have b: "obj_value (get_cell ws' 5 2) = PStr ''''" by simp
  from period_cell_value(1) [OF r l0 refl] u0
  have a: "num_of (obj_value (get_cell ws' 4 2)) = Some 5" by simp
  from r a b show ?thesis by simp
qed


section \<open>Properties of the daily aggregates\<close>

lemma add_group_keys: "fst ` set (add_group k v gs) = insert k (fst ` set gs)"
proof (induction gs)
  case Nil
  then show ?case by simp
next
  case (Cons g gs)
  obtain k' acc where g: "g = (k', acc)" by (cases g)
  show ?case
  proof (cases "k = k'")
    case True
    then show ?thesis by (simp add: g)
  next
    case False
    then show ?thesis using Cons.IH by (cases "k < k'") (auto simp: g)
  qed
qed

lemma add_group_sorted:
  "sorted_wrt (<) (map fst gs) \<Longrightarrow> sorted_wrt (<) (map fst (add_group k v gs))"
proof (induction gs)
  case Nil
  then show ?case by simp
next
  case (Cons g gs)
  obtain k' acc where g: "g = (k', acc)" by (cases g)
  have keys: "fst ` set (add_group k v gs) = insert k (fst ` set gs)"
    by (rule add_group_keys)
  from Cons g show ?case
    by (auto simp: keys)
qed

lemma map_of_sorted_less:
  "sorted_wrt (<) (map fst ((k', acc) # gs)) \<Longrightarrow> (k::'k::linorder) < k' \<Longrightarrow> map_of gs k = None"
  by (auto simp: map_of_eq_None_iff)

lemma add_group_acc_at:
  assumes "sorted_wrt (<) (map fst gs)"
  shows "acc_at (add_group k v gs) k' c = acc_at gs k' c + (if k' = k then v c else 0)"
  using assms
proof (induction gs)
  case Nil
  then show ?case by (simp add: acc_at_def)
next
  case (Cons g gs)
  obtain k0 acc where g: "g = (k0, acc)" by (cases g)
  show ?case
  proof (cases "k = k0")
    case True
    then show ?thesis by (simp add: g acc_at_def)
  next
    case ne: False
    show ?thesis
    proof (cases "k < k0")
      case True
      with Cons.prems g have "map_of gs k = None" by (auto simp: map_of_eq_None_iff)
      with True ne show ?thesis by (simp add: g acc_at_def)
    next
      case False
      from Cons.prems have "sorted_wrt (<) (map fst gs)" by simp
      from Cons.IH [OF this] have IH: "acc_at (add_group k v gs) k' c
          = acc_at gs k' c + (if k' = k then v c else 0)" .
      show ?thesis
      proof (cases "k' = k0")
        case True
        with ne False show ?thesis by (simp add: g acc_at_def)
      next
        case k'ne: False
        have "acc_at (add_group k v (g # gs)) k' c = acc_at (add_group k v gs) k' c"
          using ne False k'ne by (simp add: g acc_at_def)
        also have "\<dots> = acc_at gs k' c + (if k' = k then v c else 0)" by (rule IH)
        also have "acc_at gs k' c = acc_at (g # gs) k' c" using k'ne by (simp add: g acc_at_def)
        finally show ?thesis .
      qed
    qed
  qed
qed

lemma foldl_add_row:
  assumes "sorted_wrt (<) (map fst gs)"
  shows "sorted_wrt (<) (map fst (foldl (add_row key_of by cols) gs rows))
       \<and> set (map fst (foldl (add_row key_of by cols) gs rows))
           = set (map fst gs) \<union> {k. \<exists>row\<in>set rows. key_of (row by) = Some k}
       \<and> (\<forall>k c. acc_at (foldl (add_row key_of by cols) gs rows) k c
            = acc_at gs k c
              + sum_list (map (\<lambda>row. if c \<in> set cols then measure_value (row c) else 0)
                            (filter (\<lambda>row. key_of (row by) = Some k) rows)))"
  using assms
proof (induction rows arbitrary: gs)
  case Nil
  then show ?case by simp
next
  case (Cons row rows)
  let ?gs1 = "add_row key_of by cols gs row"
  have s1: "sorted_wrt (<) (map fst ?gs1)"
    using Cons.prems by (simp add: add_row_def add_group_sorted split: option.splits)
  have k1: "set (map fst ?gs1) = set (map fst gs) \<union> {k. key_of (row by) = Some k}"
    by (auto simp: add_row_def add_group_keys split: option.splits)
  have a1: "\<And>k c. acc_at ?gs1 k c = acc_at gs k c
      + (if key_of (row by) = Some k then (if c \<in> set cols then measure_value (row c) else 0) else 0)"
    using Cons.prems by (auto simp: add_row_def add_group_acc_at split: option.splits)
  note IH = Cons.IH [OF s1]
  show ?case
  proof (intro conjI allI)
    show "sorted_wrt (<) (map fst (foldl (add_row key_of by cols) gs (row # rows)))"
      using IH by simp
    show "set (map fst (foldl (add_row key_of by cols) gs (row # rows)))
           = set (map fst gs) \<union> {k. \<exists>row\<in>set (row # rows). key_of (row by) = Some k}"
      using IH k1 by auto
    fix k c
    show "acc_at (foldl (add_row key_of by cols) gs (row # rows)) k c
            = acc_at gs k c
              + sum_list (map (\<lambda>row. if c \<in> set cols then measure_value (row c) else 0)
                            (filter (\<lambda>row. key_of (row by) = Some k) (row # rows)))"
      using IH a1 [of k c] by simp
  qed
qed

lemma sorted_wrt_less_distinct: "sorted_wrt (<) (xs :: 'k::linorder list) \<Longrightarrow> distinct xs"
  by (induction xs) auto


lemma map_of_mem_distinct:
  "distinct (map fst gs) \<Longrightarrow> (k, acc) \<in> set gs \<Longrightarrow> acc_at gs k c = acc c"
  by (simp add: acc_at_def)

lemma groupby_sums:
  assumes "groupby_sum key_of df by cols = Inr grouped"
  shows "distinct (map fst grouped)
       \<and> set (map fst grouped) = {k. \<exists>row\<in>set (df_rows df). key_of (row by) = Some k}
       \<and> (\<forall>k acc c. (k, acc) \<in> set grouped \<and> c \<in> set cols \<longrightarrow>
             acc c = sum_list (map (\<lambda>row. measure_value (row c))
                                 (filter (\<lambda>row. key_of (row by) = Some k) (df_rows df))))"
proof -
  from assms have d: "grouped = foldl (add_row key_of by cols) [] (df_rows df)"
    by (auto simp: groupby_sum_def split: if_splits)
  have "sorted_wrt (<) (map fst ([] :: ('a \<times> (string \<Rightarrow> real)) list))" by simp
  from foldl_add_row [OF this, of key_of "by" cols "df_rows df"]
  have s: "sorted_wrt (<) (map fst grouped)"
    and k: "set (map fst grouped) = {k. \<exists>row\<in>set (df_rows df). key_of (row by) = Some k}"
    and a: "\<And>k c. acc_at grouped k c
            = sum_list (map (\<lambda>row. if c \<in> set cols then measure_value (row c) else 0)
                            (filter (\<lambda>row. key_of (row by) = Some k) (df_rows df)))"
    unfolding d by (simp_all add: acc_at_def)
  have dist: "distinct (map fst grouped)" using s by (rule sorted_wrt_less_distinct)
  have "\<forall>k acc c. (k, acc) \<in> set grouped \<and> c \<in> set cols \<longrightarrow>
             acc c = sum_list (map (\<lambda>row. measure_value (row c))
                                 (filter (\<lambda>row. key_of (row by) = Some k) (df_rows df)))"
  proof (intro allI impI)
    fix k acc c assume h: "(k, acc) \<in> set grouped \<and> c \<in> set cols"
    then have "acc c = acc_at grouped k c" using map_of_mem_distinct [OF dist, of k acc c] by simp
    also have "\<dots> = sum_list (map (\<lambda>row. measure_value (row c))
                                 (filter (\<lambda>row. key_of (row by) = Some k) (df_rows df)))"
      using h by (simp add: a)
    finally show "acc c = sum_list (map (\<lambda>row. measure_value (row c))
                                 (filter (\<lambda>row. key_of (row by) = Some k) (df_rows df)))" .
  qed
  with dist k show ?thesis by blast
qed

lemma daily_table_groupby:
  "daily_table conv df cols = Inr daily \<Longrightarrow> groupby_sum (day_of conv) df ''Day'' cols = Inr daily"
  by (auto simp: daily_table_def split: if_splits option.splits)

lemma daily_sums:
  assumes "daily_table conv df cols = Inr daily"
  shows "distinct (map fst daily)
       \<and> set (map fst daily) = {d. \<exists>row\<in>set (df_rows df). day_of conv (row ''Day'') = Some d}
       \<and> (\<forall>d acc c. (d, acc) \<in> set daily \<and> c \<in> set cols \<longrightarrow> acc c = day_sum conv df d c)"
  using groupby_sums [OF daily_table_groupby [OF assms]] unfolding day_sum_def by simp

lemma three_orders_daily:
  "\<exists>daily. daily_table day_number three_orders charts_measures = Inr daily"
  by (simp add: daily_table_def groupby_sum_def three_orders_def order_columns_def
      charts_measures_def row_of_def is_text_def)

lemma three_orders_days:
  "{d. \<exists>row\<in>set (df_rows three_orders). day_of day_number (row ''Day'') = Some d} = {1, 2}"
  by (auto simp: three_orders_def row_of_def day_of_def)

lemma three_orders_day1: "day_sum day_number three_orders 1 ''Orders'' = 5"
  by (simp add: day_sum_def three_orders_def row_of_def day_of_def measure_value_def)

text \<open>
  Claim C4. When the daily table is built, it has one row for each distinct day of the
  input and no other row, and in the row of a day the value of every aggregated measure
  column is the sum of that column over exactly the input rows of that day.
\<close>

theorem daily_table_sums:
  assumes "daily_table conv df cols = Inr daily"
  shows "distinct (map fst daily)
       \<and> set (map fst daily) = {d. \<exists>row\<in>set (df_rows df). day_of conv (row ''Day'') = Some d}
       \<and> (\<forall>d acc c. (d, acc) \<in> set daily \<and> c \<in> set cols \<longrightarrow> acc c = day_sum conv df d c)"
  using assms by (rule daily_sums)

theorem daily_table_sums_witness:
  "\<exists>daily acc. daily_table day_number three_orders charts_measures = Inr daily
      \<and> distinct (map fst daily) \<and> set (map fst daily) = {1, 2}
      \<and> (1, acc) \<in> set daily \<and> acc ''Orders'' = 5"
proof -
  from three_orders_daily obtain daily where
    r: "daily_table day_number three_orders charts_measures = Inr daily" by blast
  note t = daily_table_sums [OF r]
  from t have keys: "set (map fst daily) = {1, 2}" by (simp only: three_orders_days)
  then have "1 \<in> fst ` set daily" by simp
  then obtain acc where m: "(1, acc) \<in> set daily" by force
  have "''Orders'' \<in> set charts_measures" by (simp add: charts_measures_def)
  with t m have "acc ''Orders'' = day_sum day_number three_orders 1 ''Orders''" by blast
  then have "acc ''Orders'' = 5" by (simp only: three_orders_day1)
  with r t keys m show ?thesis by blast
qed

























section \<open>Properties of the runs\<close>

lemma bind_lift [simp]:
  "bind_run (lift r) f = (case r of Inl e \<Rightarrow> Run (Inl e) [] | Inr x \<Rightarrow> f x)"
  by (cases r) (simp_all add: bind_run_def lift_def)

lemma bind_save [simp]:
  "bind_run (save_file name) f = Run (outcome (f ())) (name # written (f ()))"
  by (simp add: bind_run_def save_file_def)

lemma finish_simps [simp]: "outcome (finish x) = Inr x" "written (finish x) = []"
  by (simp_all add: finish_def)

lemma completed_Run [simp]: "completed (Run (Inl e) w) = False" "completed (Run (Inr x) w) = True"
  by (simp_all add: completed_def)

lemma charts_example_written:
  "written (charts_example conv df) = take (length (written (charts_example conv df))) charts_outputs
   \<and> (completed (charts_example conv df) \<longrightarrow> written (charts_example conv df) = charts_outputs)"
  by (simp add: charts_example_def charts_outputs_def completed_def split: sum.splits)

lemma pdf_report_example_written:
  "written (pdf_report_example conv df)
     = take (length (written (pdf_report_example conv df))) pdf_outputs
   \<and> (completed (pdf_report_example conv df) \<longrightarrow> written (pdf_report_example conv df) = pdf_outputs)"
  by (simp add: pdf_report_example_def pdf_outputs_def completed_def split: sum.splits)

lemma excel_export_example_written:
  "(completed (excel_export_example conv df) \<longrightarrow>
      written (excel_export_example conv df) = excel_outputs)
   \<and> (\<not> completed (excel_export_example conv df) \<longrightarrow> written (excel_export_example conv df) = [])"
  by (simp add: excel_export_example_def excel_outputs_def completed_def split: sum.splits)

lemma sales_written:
  "(completed (sales_analysis_excel_report size_of df) \<longrightarrow>
      written (sales_analysis_excel_report size_of df) = sales_outputs)
   \<and> (\<not> completed (sales_analysis_excel_report size_of df) \<longrightarrow>
      written (sales_analysis_excel_report size_of df) = [])"
  by (simp add: sales_analysis_excel_report_def sales_outputs_def completed_def split: sum.splits)

lemma idxmax_from_Some:
  "best \<noteq> None \<or> (\<exists>x. Some x \<in> set vs) \<Longrightarrow> idxmax_from vs i best \<noteq> None"
proof (induction vs i best rule: idxmax_from.induct)
  case (1 i best)
  then show ?case by simp
next
  case (2 vs i best)
  then show ?case by simp
next
  case (3 x vs i best)
  then show ?case by (simp split: option.splits)
qed

lemma idxmax_ok: "\<exists>x. Some x \<in> set vs \<Longrightarrow> \<exists>i. idxmax vs = Inr i"
  using idxmax_from_Some [of None vs 0]
  by (auto simp: idxmax_def split: option.splits)

lemma charts_example_completes:
  assumes "daily_table conv df charts_measures = Inr daily" and "daily \<noteq> []"
    and "df_rows df \<noteq> []"
    and "groupby_sum segment_of df ''New or returning customer'' [''Orders'', ''Gross sales'']
           = Inr customer_data"
    and "pie (map (\<lambda>(s, acc). acc ''Orders'') customer_data) 2 = Inr ()"
    and "pie (map (\<lambda>(s, acc). acc ''Gross sales'') customer_data) 2 = Inr ()"
  shows "charts_example conv df = Run (Inr ()) charts_outputs"
proof -
  from assms(2) obtain d acc rest where "daily = (d, acc) # rest"
    by (cases daily) auto
  then have "\<exists>x. Some x \<in> set (map (\<lambda>(d, acc). Some (acc ''Orders'')) daily)" by auto
  from idxmax_ok [OF this] obtain i where
    i: "idxmax (map (\<lambda>(d, acc). Some (acc ''Orders'')) daily) = Inr i" by blast
  have l: "iloc_last (map fst daily) = Inr (last (map fst daily))"
    using assms(2) by (simp add: iloc_last_def)
  have f: "fill_between df = Inr ()" using assms(3) by (simp add: fill_between_def)
  show ?thesis
    by (simp add: charts_example_def assms(1,4,5,6) i l f charts_outputs_def finish_def)
qed

lemma nonempty_daily:
  assumes "daily_table conv df cols = Inr daily"
    and "row \<in> set (df_rows df)" and "day_of conv (row ''Day'') = Some d"
  shows "daily \<noteq> []"
proof -
  from daily_sums [OF assms(1)] assms(2,3) have "d \<in> set (map fst daily)" by blast
  then show ?thesis by auto
qed

lemma three_orders_segments:
  "\<exists>cd. groupby_sum segment_of three_orders ''New or returning customer''
           [''Orders'', ''Gross sales''] = Inr cd"
  by (simp add: groupby_sum_def three_orders_def order_columns_def row_of_def is_text_def)

lemma three_orders_pies:
  assumes "groupby_sum segment_of three_orders ''New or returning customer''
             [''Orders'', ''Gross sales''] = Inr cd"
  shows "pie (map (\<lambda>(s, acc). acc ''Orders'') cd) 2 = Inr ()
       \<and> pie (map (\<lambda>(s, acc). acc ''Gross sales'') cd) 2 = Inr ()"
  using assms
  by (auto simp: groupby_sum_def three_orders_def order_columns_def row_of_def is_text_def
      add_row_def segment_of_def pie_def measure_value_def split: if_splits)

lemma three_orders_charts: "charts_example day_number three_orders = Run (Inr ()) charts_outputs"
proof -
  from three_orders_daily obtain daily where
    d: "daily_table day_number three_orders charts_measures = Inr daily" by blast
  have "row_of [(''Day'', PInt 1), (''New or returning customer'', PStr ''New''),
               (''Orders'', PInt 2), (''Gross sales'', PFloat 50), (''Discounts'', PFloat (-5)),
               (''Net sales'', PFloat 45), (''Gross profit'', PFloat 20),
               (''Quantity ordered'', PInt 3)] \<in> set (df_rows three_orders)"
    by (simp add: three_orders_def)
  from nonempty_daily [OF d this, of 1] have ne: "daily \<noteq> []"
    by (simp add: row_of_def day_of_def)
  have rows: "df_rows three_orders \<noteq> []" by (simp add: three_orders_def)
  from three_orders_segments obtain cd where
    g: "groupby_sum segment_of three_orders ''New or returning customer''
           [''Orders'', ''Gross sales''] = Inr cd" by blast
  from three_orders_pies [OF g] have
    p: "pie (map (\<lambda>(s, acc). acc ''Orders'') cd) 2 = Inr ()"
       "pie (map (\<lambda>(s, acc). acc ''Gross sales'') cd) 2 = Inr ()" by simp_all
  from charts_example_completes [OF d ne rows g p] show ?thesis .
qed

lemma day1_orders_pies:
  assumes "groupby_sum segment_of day1_orders ''New or returning customer''
             [''Orders'', ''Gross sales''] = Inr cd"
  shows "pie (map (\<lambda>(s, acc). acc ''Orders'') cd) 2 = Inr ()
       \<and> pie (map (\<lambda>(s, acc). acc ''Gross sales'') cd) 2 = Inr ()"
  using assms
  by (auto simp: groupby_sum_def day1_orders_def three_orders_def order_columns_def row_of_def
      is_text_def add_row_def segment_of_def pie_def measure_value_def split: if_splits)

lemma day1_orders_charts: "charts_example day_number day1_orders = Run (Inr ()) charts_outputs"
proof -
  have "\<exists>daily. daily_table day_number day1_orders charts_measures = Inr daily"
    by (simp add: daily_table_def groupby_sum_def day1_orders_def three_orders_def
        order_columns_def charts_measures_def row_of_def is_text_def)
  then obtain daily where
    d: "daily_table day_number day1_orders charts_measures = Inr daily" by blast
  have "row_of [(''Day'', PInt 1), (''New or returning customer'', PStr ''New''),
               (''Orders'', PInt 2), (''Gross sales'', PFloat 50), (''Discounts'', PFloat (-5)),
               (''Net sales'', PFloat 45), (''Gross profit'', PFloat 20),
               (''Quantity ordered'', PInt 3)] \<in> set (df_rows day1_orders)"
    by (simp add: day1_orders_def three_orders_def)
  from nonempty_daily [OF d this, of 1] have ne: "daily \<noteq> []"
    by (simp add: row_of_def day_of_def)
  have rows: "df_rows day1_orders \<noteq> []" by (simp add: day1_orders_def)
  have "\<exists>cd. groupby_sum segment_of day1_orders ''New or returning customer''
           [''Orders'', ''Gross sales''] = Inr cd"
    by (simp add: groupby_sum_def day1_orders_def three_orders_def order_columns_def
        row_of_def is_text_def)
  then obtain cd where
    g: "groupby_sum segment_of day1_orders ''New or returning customer''
           [''Orders'', ''Gross sales''] = Inr cd" by blast
  from day1_orders_pies [OF g] have
    p: "pie (map (\<lambda>(s, acc). acc ''Orders'') cd) 2 = Inr ()"
       "pie (map (\<lambda>(s, acc). acc ''Gross sales'') cd) 2 = Inr ()" by simp_all
  from charts_example_completes [OF d ne rows g p] show ?thesis .
qed
















text \<open>
  Claim C1 (as amended). A run that completes writes: for charts\_example.py six PNG
  files; for pdf\_report\_example.py three PNG files and then one PDF file; for
  excel\_export\_example.py and for sales\_analysis\_excel\_report.py one .xlsx file. A run
  that an exception ends has written the first files of its list only, and none for the
  two workbook scripts.
\<close>

theorem script_output_files:
  "(completed (charts_example conv df) \<longrightarrow> written (charts_example conv df) = charts_outputs)
   \<and> written (charts_example conv df)
       = take (length (written (charts_example conv df))) charts_outputs
   \<and> (completed (pdf_report_example conv df) \<longrightarrow>
        written (pdf_report_example conv df) = pdf_outputs)
   \<and> written (pdf_report_example conv df)
       = take (length (written (pdf_report_example conv df))) pdf_outputs
   \<and> (completed (excel_export_example conv df) \<longrightarrow>
        written (excel_export_example conv df) = excel_outputs)
   \<and> (\<not> completed (excel_export_example conv df) \<longrightarrow>
        written (excel_export_example conv df) = [])
   \<and> (completed (sales_analysis_excel_report size_of df) \<longrightarrow>
        written (sales_analysis_excel_report size_of df) = sales_outputs)
   \<and> (\<not> completed (sales_analysis_excel_report size_of df) \<longrightarrow>
        written (sales_analysis_excel_report size_of df) = [])
   \<and> length charts_outputs = 6 \<and> length pdf_outputs = 4
   \<and> length excel_outputs = 1 \<and> length sales_outputs = 1"
  using charts_example_written [of conv df] pdf_report_example_written [of conv df]
    excel_export_example_written [of conv df] sales_written [of size_of df]
  by (simp add: charts_outputs_def pdf_outputs_def excel_outputs_def sales_outputs_def)

theorem script_output_files_witness:
  "completed (charts_example day_number three_orders)
   \<and> written (charts_example day_number three_orders) = charts_outputs"
proof -
  have c: "completed (charts_example day_number three_orders)"
    by (simp add: three_orders_charts)
  with script_output_files [of day_number three_orders]
  have "written (charts_example day_number three_orders) = charts_outputs" by blast
  with c show ?thesis by simp
qed

text \<open>
  The claim as written, one output file for each script, fails for the charts script: on
  a table of three order lines it writes six files.
\<close>

theorem charts_example_six_files:
  "written (charts_example day_number three_orders)
     = [''chart_line_sales.png'', ''chart_bar_orders.png'', ''chart_dual_axis.png'',
        ''chart_pie_customers.png'', ''chart_comparison.png'', ''chart_heatmap.png'']
   \<and> length (written (charts_example day_number three_orders)) = 6"
  by (simp add: three_orders_charts charts_outputs_def)

lemma prefix_agree:
  assumes "xs = take (length xs) zs" and "ys = take (length ys) zs"
    and "i < length xs" and "i < length ys"
  shows "xs ! i = ys ! i"
proof -
  have "xs ! i = take (length xs) zs ! i" using assms(1) by simp
  also have "\<dots> = zs ! i" using assms(3) by simp
  also have "\<dots> = take (length ys) zs ! i" using assms(4) by simp
  also have "\<dots> = ys ! i" using assms(2) by simp
  finally show ?thesis .
qed

text \<open>
  Claim C6. The names of the files that a script writes do not depend on the table: for
  any two tables, the files that both runs write have the same names in the same order,
  and two completed runs write the same list of names.
\<close>

theorem output_names_fixed:
  "(\<forall>i. i < length (written (charts_example conv df1))
          \<and> i < length (written (charts_example conv df2)) \<longrightarrow>
        written (charts_example conv df1) ! i = written (charts_example conv df2) ! i)
   \<and> (completed (charts_example conv df1) \<and> completed (charts_example conv df2) \<longrightarrow>
        written (charts_example conv df1) = written (charts_example conv df2))
   \<and> (\<forall>i. i < length (written (pdf_report_example conv df1))
          \<and> i < length (written (pdf_report_example conv df2)) \<longrightarrow>
        written (pdf_report_example conv df1) ! i = written (pdf_report_example conv df2) ! i)
   \<and> (completed (pdf_report_example conv df1) \<and> completed (pdf_report_example conv df2) \<longrightarrow>
        written (pdf_report_example conv df1) = written (pdf_report_example conv df2))
   \<and> (\<forall>i. i < length (written (excel_export_example conv df1))
          \<and> i < length (written (excel_export_example conv df2)) \<longrightarrow>
        written (excel_export_example conv df1) ! i = written (excel_export_example conv df2) ! i)
   \<and> (completed (excel_export_example conv df1) \<and> completed (excel_export_example conv df2) \<longrightarrow>
        written (excel_export_example conv df1) = written (excel_export_example conv df2))
   \<and> (\<forall>i. i < length (written (sales_analysis_excel_report size_of df1))
          \<and> i < length (written (sales_analysis_excel_report size_of df2)) \<longrightarrow>
        written (sales_analysis_excel_report size_of df1) ! i
          = written (sales_analysis_excel_report size_of df2) ! i)
   \<and> (completed (sales_analysis_excel_report size_of df1)
        \<and> completed (sales_analysis_excel_report size_of df2) \<longrightarrow>
        written (sales_analysis_excel_report size_of df1)
          = written (sales_analysis_excel_report size_of df2))"
proof -
  note c = charts_example_written [of conv df1] charts_example_written [of conv df2]
  note p = pdf_report_example_written [of conv df1] pdf_report_example_written [of conv df2]
  note e = excel_export_example_written [of conv df1] excel_export_example_written [of conv df2]
  note s = sales_written [of size_of df1] sales_written [of size_of df2]
  have 1: "\<forall>i. i < length (written (charts_example conv df1))
          \<and> i < length (written (charts_example conv df2)) \<longrightarrow>
        written (charts_example conv df1) ! i = written (charts_example conv df2) ! i"
    using c by (blast intro: prefix_agree)
  have 2: "completed (charts_example conv df1) \<and> completed (charts_example conv df2) \<longrightarrow>
        written (charts_example conv df1) = written (charts_example conv df2)"
    using c by simp
  have 3: "\<forall>i. i < length (written (pdf_report_example conv df1))
          \<and> i < length (written (pdf_report_example conv df2)) \<longrightarrow>
        written (pdf_report_example conv df1) ! i = written (pdf_report_example conv df2) ! i"
    using p by (blast intro: prefix_agree)
  have 4: "completed (pdf_report_example conv df1) \<and> completed (pdf_report_example conv df2) \<longrightarrow>
        written (pdf_report_example conv df1) = written (pdf_report_example conv df2)"
    using p by simp
  have 5: "\<forall>i. i < length (written (excel_export_example conv df1))
          \<and> i < length (written (excel_export_example conv df2)) \<longrightarrow>
        written (excel_export_example conv df1) ! i = written (excel_export_example conv df2) ! i"
    using e by (cases "completed (excel_export_example conv df1)";
        cases "completed (excel_export_example conv df2)") simp_all
  have 6: "completed (excel_export_example conv df1) \<and> completed (excel_export_example conv df2) \<longrightarrow>
        written (excel_export_example conv df1) = written (excel_export_example conv df2)"
    using e by simp
  have 7: "\<forall>i. i < length (written (sales_analysis_excel_report size_of df1))
          \<and> i < length (written (sales_analysis_excel_report size_of df2)) \<longrightarrow>
        written (sales_analysis_excel_report size_of df1) ! i
          = written (sales_analysis_excel_report size_of df2) ! i"
    using s by (cases "completed (sales_analysis_excel_report size_of df1)";
        cases "completed (sales_analysis_excel_report size_of df2)") simp_all
  have 8: "completed (sales_analysis_excel_report size_of df1)
        \<and> completed (sales_analysis_excel_report size_of df2) \<longrightarrow>
        written (sales_analysis_excel_report size_of df1)
          = written (sales_analysis_excel_report size_of df2)"
    using s by simp
  from 1 2 3 4 5 6 7 8 show ?thesis by blast
qed

theorem output_names_fixed_witness:
  "completed (charts_example day_number three_orders)
   \<and> completed (charts_example day_number day1_orders)
   \<and> written (charts_example day_number three_orders)
       = written (charts_example day_number day1_orders)"
proof -
  have c: "completed (charts_example day_number three_orders)"
    "completed (charts_example day_number day1_orders)"
    by (simp_all add: three_orders_charts day1_orders_charts)
  with output_names_fixed [of day_number three_orders day1_orders]
  have "written (charts_example day_number three_orders)
       = written (charts_example day_number day1_orders)" by blast
  with c show ?thesis by simp
qed

section \<open>Properties of the sales report and of the harness\<close>







lemma check_measures_unit: "check_measures df cols = Inr u \<longleftrightarrow> check_measures df cols = Inr ()"
  by simp





































text \<open>
  Claim C7. The harness loads the table from the path given as first command-line
  argument when there is one and from \<open>sample_sales_data.csv\<close> otherwise; when the table
  and the script's text are read, it executes the text with the table bound to the global
  name \<open>df\<close>, so that the run of the harness is the run of the report on that table.
\<close>

theorem harness_supplies_table:
  "(1 < length argv \<longrightarrow> csv_path argv = argv ! 1)
   \<and> (\<not> 1 < length argv \<longrightarrow> csv_path argv = ''sample_sales_data.csv'')
   \<and> (read_csv dir (csv_path argv) = Inr df
        \<and> read_text dir ''sales_analysis_excel_report.py'' = Inr text \<longrightarrow>
        (\<exists>globals. test_sales_report read_csv read_text exec dir argv = exec text globals
             \<and> globals ''df'' = Some (BFrame df))
        \<and> test_sales_report read_csv read_text (\<lambda>text. run_report size_of) dir argv
            = sales_analysis_excel_report size_of df)"
proof (intro conjI impI)
  show "1 < length argv \<Longrightarrow> csv_path argv = argv ! 1" by (simp add: csv_path_def)
  show "\<not> 1 < length argv \<Longrightarrow> csv_path argv = ''sample_sales_data.csv''" by (simp add: csv_path_def)
next
  assume a: "read_csv dir (csv_path argv) = Inr df
        \<and> read_text dir ''sales_analysis_excel_report.py'' = Inr text"
  then have e: "\<And>ex. test_sales_report read_csv read_text ex dir argv
      = ex text [''csv_file'' \<mapsto> BStr (csv_path argv), ''df'' \<mapsto> BFrame df]"
    by (simp add: test_sales_report_def Let_def)
  show "\<exists>globals. test_sales_report read_csv read_text exec dir argv = exec text globals
             \<and> globals ''df'' = Some (BFrame df)"
    by (rule exI [of _ "[''csv_file'' \<mapsto> BStr (csv_path argv), ''df'' \<mapsto> BFrame df]"])
      (simp add: e)
  show "test_sales_report read_csv read_text (\<lambda>text. run_report size_of) dir argv
            = sales_analysis_excel_report size_of df"
    by (simp add: e run_report_def)
qed

theorem harness_supplies_table_witness:
  "1 < length [''test_sales_report.py'', ''skus.csv'']
   \<and> example_read_csv ''examples'' (csv_path [''test_sales_report.py'', ''skus.csv'']) = Inr two_skus
   \<and> example_read_text ''examples'' ''sales_analysis_excel_report.py'' = Inr ''# report''
   \<and> test_sales_report example_read_csv example_read_text (\<lambda>text. run_report last_three)
        ''examples'' [''test_sales_report.py'', ''skus.csv'']
       = sales_analysis_excel_report last_three two_skus"
proof -
  have l: "1 < length [''test_sales_report.py'', ''skus.csv'']" by simp
  have c: "example_read_csv ''examples'' (csv_path [''test_sales_report.py'', ''skus.csv''])
      = Inr two_skus"
    by (simp add: example_read_csv_def csv_path_def)
  have t: "example_read_text ''examples'' ''sales_analysis_excel_report.py'' = Inr ''# report''"
    by (simp add: example_read_text_def)
  from harness_supplies_table [of "[''test_sales_report.py'', ''skus.csv'']" example_read_csv
      "''examples''" two_skus example_read_text "''# report''" _ last_three] c t
  have "test_sales_report example_read_csv example_read_text (\<lambda>text. run_report last_three)
        ''examples'' [''test_sales_report.py'', ''skus.csv'']
       = sales_analysis_excel_report last_three two_skus" by blast
  with l c t show ?thesis by blast
qed


end
